theory Spec2Isabelle
  imports Main "HOL-Library.Word"
begin

unbundle bit_operations_syntax

section \<open>Engine types used by bdr\_executor.c\<close>

text \<open>
  Object identifiers and transaction identifiers are 32-bit unsigned integers, a
  replication node identifier is 16-bit, a Datum is a machine word. The invalid value of
  each identifier type is zero.
\<close>

type_synonym Oid = "32 word"
type_synonym TransactionId = "32 word"
type_synonym RepNodeId = "16 word"
type_synonym Datum = "64 word"

definition InvalidOid :: Oid where
  "InvalidOid = 0"

definition OidIsValid :: "Oid \<Rightarrow> bool" where
  "OidIsValid objectId = (objectId \<noteq> InvalidOid)"

definition InvalidTransactionId :: TransactionId where
  "InvalidTransactionId = 0"

definition TransactionIdIsValid :: "TransactionId \<Rightarrow> bool" where
  "TransactionIdIsValid xid = (xid \<noteq> InvalidTransactionId)"

definition InvalidRepNodeId :: RepNodeId where
  "InvalidRepNodeId = 0"

definition PG_CATALOG_NAMESPACE :: Oid where
  "PG_CATALOG_NAMESPACE = 11"

text \<open>The result of \<^verbatim>\<open>heap_lock_tuple\<close>.\<close>

datatype HTSU_Result =
    HeapTupleMayBeUpdated
  | HeapTupleInvisible
  | HeapTupleSelfUpdated
  | HeapTupleUpdated
  | HeapTupleBeingUpdated
  | HeapTupleWouldBlock

subsection \<open>Errors and log lines\<close>

text \<open>
  \<^verbatim>\<open>ereport(ERROR, ...)\<close> and \<^verbatim>\<open>elog(ERROR, ...)\<close> abort the running
  function; they are the \<open>Inl\<close> branch of every result below. An error keeps what the
  source passes: the SQLSTATE code, the format string, the arguments of the format and
  the hint. \<open>Crash\<close> stands for a dereference the source performs without a check
  (a NULL planned statement, a range-table index out of range, a relation that the cache
  does not find).
\<close>

datatype errcode =
    ERRCODE_INTERNAL_ERROR
  | ERRCODE_FEATURE_NOT_SUPPORTED
  | ERRCODE_E_R_I_E_TRIGGER_PROTOCOL_VIOLATED
  | ERRCODE_READ_ONLY_SQL_TRANSACTION
  | ERRCODE_OBJECT_NOT_IN_PREREQUISITE_STATE
  | ERRCODE_T_R_SERIALIZATION_FAILURE

datatype fmtarg = S string | U Oid | D int | Htsu HTSU_Result

datatype error =
    Error errcode string "fmtarg list" "string option"
  | Crash string

datatype elevel = DEBUG2 | LOG

section \<open>The executor-start hook (the write gate)\<close>

datatype CmdType =
    CMD_UNKNOWN | CMD_SELECT | CMD_UPDATE | CMD_INSERT | CMD_DELETE | CMD_UTILITY | CMD_NOTHING

record RangeTblEntry =
  relid :: Oid

record PlannedStmt =
  commandType :: CmdType
  hasModifyingCTE :: bool
  rowMarks :: "nat list"
  rtable :: "RangeTblEntry list"
  resultRelations :: "int list"

record QueryDesc =
  operation :: CmdType
  plannedstmt :: "PlannedStmt option"

datatype relpersistence = RELPERSISTENCE_PERMANENT | RELPERSISTENCE_UNLOGGED | RELPERSISTENCE_TEMP

record RelationData =
  rd_id :: Oid
  rd_relname :: string
  rd_relpersistence :: relpersistence
  rd_relnamespace :: Oid
  rd_indexvalid :: nat
  rd_replidindex :: Oid

text \<open>
  Modelled from the spec: the macro \<^verbatim>\<open>RelationNeedsWAL\<close> is declared outside this
  file; the tables that "do not generate durable write-ahead records" are the unlogged
  and the temporary ones (the source's comment: skip UNLOGGED and TEMP tables).
\<close>

definition RelationNeedsWAL :: "RelationData \<Rightarrow> bool" where
  "RelationNeedsWAL rel = (rd_relpersistence rel = RELPERSISTENCE_PERMANENT)"

definition RelationGetNamespace :: "RelationData \<Rightarrow> Oid" where
  "RelationGetNamespace rel = rd_relnamespace rel"

definition RelationGetRelationName :: "RelationData \<Rightarrow> string" where
  "RelationGetRelationName rel = rd_relname rel"

text \<open>
  \<^verbatim>\<open>rt_fetch(rtei, rangeTable)\<close> is \<^verbatim>\<open>list_nth(rangeTable, rtei - 1)\<close>; an index
  outside the list is \<open>None\<close> here.
\<close>

definition rt_fetch :: "int \<Rightarrow> RangeTblEntry list \<Rightarrow> RangeTblEntry option" where
  "rt_fetch rangetable_index rangetable =
     (if 1 \<le> rangetable_index \<and> rangetable_index \<le> int (length rangetable)
      then Some (rangetable ! nat (rangetable_index - 1)) else None)"

text \<open>
  What the hook reads from the rest of the system: the file's own two statics, and the
  collaborators it calls. \<open>bdr_locks_check_dml\<close> either returns (\<open>None\<close>) or raises.
\<close>

datatype next_handler = PrevExecutorStart | standard_ExecutorStart

record gate_env =
  bdr_always_allow_writes :: bool
  PrevExecutorStart_hook :: bool
  bdr_is_bdr_activated_db :: bool
  bdr_local_node_read_only :: bool
  bdr_locks_check_dml :: "error option"
  RelationIdGetRelation :: "Oid \<Rightarrow> RelationData option"
  replica_identity_index :: "RelationData \<Rightarrow> Oid"
  CreateCommandTag :: "PlannedStmt \<Rightarrow> string"

text \<open>
  \<^verbatim>\<open>RelationGetIndexList\<close> is the engine's; the hook calls it for its effect on the
  relation cache entry: it reads the indexes of the relation from the catalog, stores the
  replica identity index it finds there (\<open>InvalidOid\<close> when there is none) and marks the
  entry valid.
\<close>

definition RelationGetIndexList :: "gate_env \<Rightarrow> RelationData \<Rightarrow> RelationData" where
  "RelationGetIndexList env rel =
     rel\<lparr>rd_indexvalid := 1, rd_replidindex := replica_identity_index env rel\<rparr>"

definition CreateWritableStmtTag :: "gate_env \<Rightarrow> PlannedStmt \<Rightarrow> string" where
  "CreateWritableStmtTag env ps =
     (if commandType ps = CMD_SELECT then ''DML'' else CreateCommandTag env ps)"

definition read_only_error :: "gate_env \<Rightarrow> PlannedStmt \<Rightarrow> RelationData \<Rightarrow> error" where
  "read_only_error env ps rel =
     Error ERRCODE_READ_ONLY_SQL_TRANSACTION
       ''%s may only affect UNLOGGED or TEMPORARY tables on read-only BDR node; %s is a regular table''
       [S (CreateWritableStmtTag env ps), S (RelationGetRelationName rel)] None"

definition no_primary_key_error :: "RelationData \<Rightarrow> error" where
  "no_primary_key_error rel =
     Error ERRCODE_OBJECT_NOT_IN_PREREQUISITE_STATE
       ''Cannot run UPDATE or DELETE on table %s because it does not have a PRIMARY KEY.''
       [S (RelationGetRelationName rel)] (Some ''Add a PRIMARY KEY to the table'')"

text \<open>The body of the loop over the result relations, for one relation.\<close>

definition check_relation ::
  "gate_env \<Rightarrow> bool \<Rightarrow> PlannedStmt \<Rightarrow> RelationData \<Rightarrow> error option" where
  "check_relation env read_only_node ps rel =
     (if \<not> RelationNeedsWAL rel then None
      else if RelationGetNamespace rel = PG_CATALOG_NAMESPACE then None
      else if read_only_node then Some (read_only_error env ps rel)
      else
        let rel' = (if rd_indexvalid rel = 0 then RelationGetIndexList env rel else rel)
        in if OidIsValid (rd_replidindex rel') then None
           else Some (no_primary_key_error rel'))"

fun check_result_relations ::
  "gate_env \<Rightarrow> bool \<Rightarrow> PlannedStmt \<Rightarrow> int list \<Rightarrow> error + unit" where
  "check_result_relations env read_only_node ps [] = Inr ()"
| "check_result_relations env read_only_node ps (rtei # l) =
     (case rt_fetch rtei (rtable ps) of
        None \<Rightarrow> Inl (Crash ''rt_fetch'')
      | Some rte \<Rightarrow>
          (case RelationIdGetRelation env (relid rte) of
             None \<Rightarrow> Inl (Crash ''RelationIdGetRelation'')
           | Some rel \<Rightarrow>
               (case check_relation env read_only_node ps rel of
                  Some e \<Rightarrow> Inl e
                | None \<Rightarrow> check_result_relations env read_only_node ps l)))"

text \<open>The label \<^verbatim>\<open>done\<close>: hand the statement to the next handler.\<close>

definition delegate :: "gate_env \<Rightarrow> error + next_handler" where
  "delegate env =
     (if PrevExecutorStart_hook env then Inr PrevExecutorStart else Inr standard_ExecutorStart)"

definition performs_writes :: "QueryDesc \<Rightarrow> bool" where
  "performs_writes queryDesc =
     (if (case plannedstmt queryDesc of
            None \<Rightarrow> False
          | Some ps \<Rightarrow> hasModifyingCTE ps \<or> rowMarks ps \<noteq> [])
      then True
      else if operation queryDesc \<noteq> CMD_SELECT then True
      else False)"

definition BdrExecutorStart :: "gate_env \<Rightarrow> QueryDesc \<Rightarrow> error + next_handler" where
  "BdrExecutorStart env queryDesc =
     (if bdr_always_allow_writes env then delegate env
      else if \<not> performs_writes queryDesc then delegate env
      else if \<not> bdr_is_bdr_activated_db env then delegate env
      else
        let read_only_node = bdr_local_node_read_only env in
        (case bdr_locks_check_dml env of
           Some e \<Rightarrow> Inl e
         | None \<Rightarrow>
             (case plannedstmt queryDesc of
                None \<Rightarrow> Inl (Crash ''plannedstmt'')
              | Some ps \<Rightarrow>
                  if operation queryDesc = CMD_INSERT \<and> \<not> hasModifyingCTE ps \<and> \<not> read_only_node
                  then delegate env
                  else
                    (case check_result_relations env read_only_node ps (resultRelations ps) of
                       Inl e \<Rightarrow> Inl e
                     | Inr _ \<Rightarrow> delegate env))))"

subsection \<open>Notions for stating what the hook decides\<close>

text \<open>
  The relations that the loop of the hook opens, in order, when every result relation
  index is in the range table and every relation is found; the tables the hook does not
  skip (durable, outside the system catalog); the replica identity index the hook reads
  (from the cache entry when it is valid, loaded by \<^verbatim>\<open>RelationGetIndexList\<close>
  otherwise); and the handler that \<^verbatim>\<open>done\<close> calls.
\<close>

fun result_relations :: "gate_env \<Rightarrow> PlannedStmt \<Rightarrow> int list \<Rightarrow> RelationData list option" where
  "result_relations env ps [] = Some []"
| "result_relations env ps (rtei # l) =
     (case rt_fetch rtei (rtable ps) of
        None \<Rightarrow> None
      | Some rte \<Rightarrow>
          (case RelationIdGetRelation env (relid rte) of
             None \<Rightarrow> None
           | Some rel \<Rightarrow> map_option ((#) rel) (result_relations env ps l)))"

definition gated_table :: "RelationData \<Rightarrow> bool" where
  "gated_table rel = (RelationNeedsWAL rel \<and> RelationGetNamespace rel \<noteq> PG_CATALOG_NAMESPACE)"

definition replica_identity :: "gate_env \<Rightarrow> RelationData \<Rightarrow> Oid" where
  "replica_identity env rel =
     rd_replidindex (if rd_indexvalid rel = 0 then RelationGetIndexList env rel else rel)"

definition next_executor_start :: "gate_env \<Rightarrow> next_handler" where
  "next_executor_start env =
     (if PrevExecutorStart_hook env then PrevExecutorStart else standard_ExecutorStart)"

section \<open>Scan keys for the unique indexes of a relation\<close>

record ScanKeyData =
  sk_flags :: "32 word"
  sk_attno :: int
  sk_strategy :: nat
  sk_subtype :: Oid
  sk_func :: Oid
  sk_argument :: Datum

definition SK_ISNULL :: "32 word" where
  "SK_ISNULL = 0x0001"

definition BTEqualStrategyNumber :: nat where
  "BTEqualStrategyNumber = 3"

definition MaxTupleAttributeNumber :: nat where
  "MaxTupleAttributeNumber = 1664"

text \<open>
  \<^verbatim>\<open>ScanKeyInit\<close> of the engine: no flags, no subtype, the comparison procedure and
  the argument as given.
\<close>

definition ScanKeyInit :: "int \<Rightarrow> nat \<Rightarrow> Oid \<Rightarrow> Datum \<Rightarrow> ScanKeyData" where
  "ScanKeyInit attributeNumber strategy procedure argument =
     \<lparr>sk_flags = 0, sk_attno = attributeNumber, sk_strategy = strategy,
      sk_subtype = InvalidOid, sk_func = procedure, sk_argument = argument\<rparr>"

text \<open>
  A \<^verbatim>\<open>BDRTupleData\<close> holds two arrays of \<^verbatim>\<open>MaxTupleAttributeNumber\<close> entries: every
  index below that bound reads some value, an index outside is a read out of the array.
\<close>

record BDRTupleData =
  tup_values :: "nat \<Rightarrow> Datum"
  tup_isnull :: "nat \<Rightarrow> bool"

record IndexInfo =
  ii_NumIndexAttrs :: nat
  ii_Unique :: bool
  ii_Expressions :: "nat list"

text \<open>
  An index relation: its number of attributes, and the two vectors of its
  \<^verbatim>\<open>pg_index\<close> row, the table columns it indexes (\<open>indkey\<close>) and their operator
  classes (\<open>indclass\<close>).
\<close>

record IndexRelation =
  idx_natts :: nat
  indkey :: "int list"
  indclass :: "Oid list"

text \<open>The catalog lookups of \<^verbatim>\<open>build_index_scan_key\<close>, for the relation searched.\<close>

record syscache =
  attnumTypeId :: "int \<Rightarrow> Oid"
  get_opclass_input_type :: "Oid \<Rightarrow> Oid"
  get_opclass_family :: "Oid \<Rightarrow> Oid"
  get_opfamily_member :: "Oid \<Rightarrow> Oid \<Rightarrow> Oid \<Rightarrow> nat \<Rightarrow> Oid"
  get_opcode :: "Oid \<Rightarrow> Oid"

text \<open>
  One turn of the loop of \<^verbatim>\<open>build_index_scan_key\<close>: the scan key entry for the index
  column \<open>attoff\<close>, and whether the row is null there.
\<close>

definition build_index_scan_key_column ::
  "syscache \<Rightarrow> IndexRelation \<Rightarrow> BDRTupleData \<Rightarrow> nat \<Rightarrow> error + (ScanKeyData \<times> bool)" where
  "build_index_scan_key_column sc idxrel tup attoff =
     (if \<not> (attoff < length (indkey idxrel) \<and> attoff < length (indclass idxrel))
      then Inl (Crash ''indkey'')
      else
        let pkattno = int attoff + 1;
            mainattno = indkey idxrel ! attoff;
            atttype = attnumTypeId sc mainattno;
            optype = get_opclass_input_type sc (indclass idxrel ! attoff);
            opfamily = get_opclass_family sc (indclass idxrel ! attoff);
            operator = get_opfamily_member sc opfamily optype optype BTEqualStrategyNumber
        in
          if \<not> OidIsValid operator
          then Inl (Error ERRCODE_INTERNAL_ERROR
                 ''could not lookup equality operator for type %u, optype %u in opfamily %u''
                 [U atttype, U optype, U opfamily] None)
          else if \<not> (1 \<le> mainattno \<and> mainattno \<le> int MaxTupleAttributeNumber)
          then Inl (Crash ''tup'')
          else
            let regop = get_opcode sc operator;
                skey = ScanKeyInit pkattno BTEqualStrategyNumber regop
                         (tup_values tup (nat (mainattno - 1)))
            in
              if tup_isnull tup (nat (mainattno - 1))
              then Inr (skey\<lparr>sk_flags := sk_flags skey OR SK_ISNULL\<rparr>, True)
              else Inr (skey, False))"

fun build_index_scan_key_from ::
  "syscache \<Rightarrow> IndexRelation \<Rightarrow> BDRTupleData \<Rightarrow> nat list \<Rightarrow> error + (ScanKeyData list \<times> bool)" where
  "build_index_scan_key_from sc idxrel tup [] = Inr ([], False)"
| "build_index_scan_key_from sc idxrel tup (attoff # rest) =
     (case build_index_scan_key_column sc idxrel tup attoff of
        Inl e \<Rightarrow> Inl e
      | Inr (entry, isnull) \<Rightarrow>
          (case build_index_scan_key_from sc idxrel tup rest of
             Inl e \<Rightarrow> Inl e
           | Inr (skey, hasnulls) \<Rightarrow> Inr (entry # skey, isnull \<or> hasnulls)))"

text \<open>
  \<^verbatim>\<open>build_index_scan_key\<close>: the key for every attribute of the index, in order, and
  whether any column contains NULLs.
\<close>

definition build_index_scan_key ::
  "syscache \<Rightarrow> IndexRelation \<Rightarrow> BDRTupleData \<Rightarrow> error + (ScanKeyData list \<times> bool)" where
  "build_index_scan_key sc idxrel tup =
     build_index_scan_key_from sc idxrel tup [0 ..< idx_natts idxrel]"

text \<open>
  \<^verbatim>\<open>build_index_scan_keys\<close>: one entry per index of the result relation, \<open>None\<close> for
  the NULL pointer. The two arrays \<^verbatim>\<open>ri_IndexRelationInfo\<close> and
  \<^verbatim>\<open>ri_IndexRelationDescs\<close> are one list of pairs, \<^verbatim>\<open>ri_NumIndices\<close> its length. The
  buffer of an index has \<^verbatim>\<open>ii_NumIndexAttrs\<close> entries; filling more is a write out of it.
\<close>

fun build_index_scan_keys ::
  "syscache \<Rightarrow> (IndexInfo \<times> IndexRelation) list \<Rightarrow> BDRTupleData \<Rightarrow>
     error + (ScanKeyData list option) list" where
  "build_index_scan_keys sc [] tup = Inr []"
| "build_index_scan_keys sc ((ii, idxrel) # rest) tup =
     (if \<not> ii_Unique ii \<or> ii_Expressions ii \<noteq> []
      then
        (case build_index_scan_keys sc rest tup of
           Inl e \<Rightarrow> Inl e
         | Inr scan_keys \<Rightarrow> Inr (None # scan_keys))
      else if ii_NumIndexAttrs ii < idx_natts idxrel then Inl (Crash ''scan_keys'')
      else
        (case build_index_scan_key sc idxrel tup of
           Inl e \<Rightarrow> Inl e
         | Inr (skey, hasnulls) \<Rightarrow>
             (case build_index_scan_keys sc rest tup of
                Inl e \<Rightarrow> Inl e
              | Inr scan_keys \<Rightarrow> Inr ((if hasnulls then None else Some skey) # scan_keys))))"

section \<open>Finding a row by its key\<close>

datatype LockTupleMode =
  LockTupleKeyShare | LockTupleShare | LockTupleNoKeyExclusive | LockTupleExclusive

record HeapTupleData =
  t_self :: "nat \<times> nat"
  t_data :: "Datum list"

text \<open>
  What the index scan yields under the dirty snapshot: the tuple, and the two transaction
  identifiers the visibility test left in the snapshot for it (the inserting transaction
  in progress in \<open>snap_xmin\<close>, the deleting one in \<open>snap_xmax\<close>).
\<close>

record index_match =
  scantuple :: HeapTupleData
  snap_xmin :: TransactionId
  snap_xmax :: TransactionId

text \<open>
  The engine under the function, over a state \<open>'e\<close> of the storage that other
  transactions change: the matches of the key in index order as a scan started now sees
  them, the wait for a transaction to end, and the attempt to lock a tuple without
  waiting.
\<close>

record 'e engine =
  index_rescan :: "'e \<Rightarrow> ScanKeyData list \<Rightarrow> index_match list"
  XactLockTableWait :: "TransactionId \<Rightarrow> 'e \<Rightarrow> 'e"
  heap_lock_tuple :: "nat \<times> nat \<Rightarrow> LockTupleMode \<Rightarrow> 'e \<Rightarrow> HTSU_Result \<times> 'e"

datatype logline = Logline elevel "errcode option" string "fmtarg list"

record 'e scan_state =
  storage :: 'e
  slot :: "HeapTupleData option"
  server_log :: "logline list"

definition index_getnext :: "index_match list \<Rightarrow> index_match option" where
  "index_getnext matches = (case matches of [] \<Rightarrow> None | m # _ \<Rightarrow> Some m)"

text \<open>
  \<^verbatim>\<open>find_pkey_tuple\<close>. The label \<^verbatim>\<open>retry\<close> is the recursive call; the source puts no
  bound on the number of retries, so the first argument counts the passes allowed and
  \<open>None\<close> says that they did not suffice. The result is the value returned (or the error
  raised) and the state left, the tuple found being in \<open>slot\<close>.
\<close>

fun find_pkey_tuple ::
  "nat \<Rightarrow> 'e engine \<Rightarrow> ScanKeyData list \<Rightarrow> bool \<Rightarrow> LockTupleMode \<Rightarrow> 'e scan_state \<Rightarrow>
     ((error + bool) \<times> 'e scan_state) option" where
  "find_pkey_tuple 0 eng skey lock mode st = None"
| "find_pkey_tuple (Suc passes) eng skey lock mode st =
     (case index_getnext (index_rescan eng (storage st) skey) of
        None \<Rightarrow> Some (Inr False, st)
      | Some m \<Rightarrow>
          let st1 = st\<lparr>slot := Some (scantuple m)\<rparr>;
              xwait = (if TransactionIdIsValid (snap_xmin m) then snap_xmin m else snap_xmax m)
          in
            if TransactionIdIsValid xwait
            then find_pkey_tuple passes eng skey lock mode
                   (st1\<lparr>storage := XactLockTableWait eng xwait (storage st1)\<rparr>)
            else if lock
            then
              (case heap_lock_tuple eng (t_self (scantuple m)) mode (storage st1) of
                 (res, e') \<Rightarrow>
                   let st2 = st1\<lparr>storage := e'\<rparr> in
                   (case res of
                      HeapTupleMayBeUpdated \<Rightarrow> Some (Inr True, st2)
                    | HeapTupleUpdated \<Rightarrow>
                        find_pkey_tuple passes eng skey lock mode
                          (st2\<lparr>server_log := server_log st2 @
                             [Logline LOG (Some ERRCODE_T_R_SERIALIZATION_FAILURE)
                                ''concurrent update, retrying'' []]\<rparr>)
                    | _ \<Rightarrow>
                        Some (Inl (Error ERRCODE_INTERNAL_ERROR
                                ''unexpected HTSU_Result after locking: %u'' [Htsu res] None),
                              st2)))
            else Some (Inr True, st1))"

section \<open>The replication queue\<close>

record QueuedCommand =
  lsn :: "64 word"
  queued_at :: int
  perpetrator :: string
  command_tag :: string
  command :: string

type_synonym dropped_object = "string option \<times> string list option \<times> string list option"

record QueuedDrop =
  drop_lsn :: "64 word"
  drop_queued_at :: int
  dropped_objects :: "dropped_object list"

text \<open>
  What the engine answers when the indexes of a queue table are updated for a new tuple:
  whether the tuple is heap-only, the number of indexes of the table, and the indexes
  \<^verbatim>\<open>ExecInsertIndexTuples\<close> wants rechecked.
\<close>

record index_update =
  HeapTupleIsHeapOnly :: bool
  ri_NumIndices :: nat
  ExecInsertIndexTuples :: "Oid list"

definition UserTableUpdateOpenIndexes :: "index_update \<Rightarrow> error + unit" where
  "UserTableUpdateOpenIndexes iu =
     (if HeapTupleIsHeapOnly iu then Inr ()
      else if ri_NumIndices iu > 0
      then
        (if ExecInsertIndexTuples iu \<noteq> []
         then Inl (Error ERRCODE_FEATURE_NOT_SUPPORTED
                ''bdr doesn't support index rechecks'' [] None)
         else Inr ())
      else Inr ())"

text \<open>
  The state of one backend: the statics of this file (\<open>in_bdr_replicate_ddl_command\<close>,
  \<open>bdr_truncated_tables\<close>), the session state it reads (\<open>replication_origin_id\<close>, the
  settings \<^verbatim>\<open>bdr.skip_ddl_replication\<close> and \<^verbatim>\<open>search_path\<close>, the write-ahead log
  position, the clock, the user), the two queue tables \<^verbatim>\<open>bdr.bdr_queued_commands\<close> and
  \<^verbatim>\<open>bdr.bdr_queued_drops\<close> as the rows appended to them in order, and the log.
  An error leaves the state as it is when it is raised: rolling the tables back is the
  engine's transaction abort, outside this file.
\<close>

record backend =
  in_bdr_replicate_ddl_command :: bool
  bdr_truncated_tables :: "Oid list"
  replication_origin_id :: RepNodeId
  skip_ddl_replication :: string
  search_path :: string
  pg_current_xlog_location :: "64 word"
  now :: int
  user_name :: string
  bdr_queued_commands :: "QueuedCommand list"
  bdr_queued_drops :: "QueuedDrop list"
  queued_commands_indexes :: index_update
  queued_drops_indexes :: index_update
  backend_log :: "logline list"

type_synonym 'a result = "(error + 'a) \<times> backend"

text \<open>
  \<^verbatim>\<open>bdr_queue_ddl_command\<close>: insert one row (lsn, queued\_at, perpetrator,
  command\_tag, command) into \<^verbatim>\<open>bdr.bdr_queued_commands\<close>, then update its indexes.
  The function reads no flag and no setting. Its DEBUG2 line is kept without the identity
  of the node, which a macro of \<^verbatim>\<open>bdr.h\<close> formats.
\<close>

definition bdr_queue_ddl_command :: "string \<Rightarrow> string \<Rightarrow> backend \<Rightarrow> unit result" where
  "bdr_queue_ddl_command tag cmd st =
     (let st1 = st\<lparr>backend_log := backend_log st @
                  [Logline DEBUG2 None ''enqueuing DDL command \"%s\"'' [S cmd]]\<rparr>;
          newtup = \<lparr>lsn = pg_current_xlog_location st1, queued_at = now st1,
                    perpetrator = user_name st1, command_tag = tag, command = cmd\<rparr>;
          st2 = st1\<lparr>bdr_queued_commands := bdr_queued_commands st1 @ [newtup]\<rparr>
      in
        (case UserTableUpdateOpenIndexes (queued_commands_indexes st2) of
           Inl e \<Rightarrow> (Inl e, st2)
         | Inr _ \<Rightarrow> (Inr (), st2)))"

subsection \<open>Truncated tables of a transaction\<close>

definition bdr_start_truncate :: "backend \<Rightarrow> backend" where
  "bdr_start_truncate st = st\<lparr>bdr_truncated_tables := []\<rparr>"

text \<open>The catalog lookups that render the name of a relation.\<close>

record relnames =
  get_rel_namespace :: "Oid \<Rightarrow> Oid"
  get_namespace_name :: "Oid \<Rightarrow> string"
  get_rel_name :: "Oid \<Rightarrow> string"
  quote_qualified_identifier :: "string \<Rightarrow> string \<Rightarrow> string"

definition qualified_relname :: "relnames \<Rightarrow> Oid \<Rightarrow> string" where
  "qualified_relname rn reloid =
     quote_qualified_identifier rn
       (get_namespace_name rn (get_rel_namespace rn reloid)) (get_rel_name rn reloid)"

text \<open>The \<^verbatim>\<open>foreach\<close> of \<^verbatim>\<open>bdr_finish_truncate\<close>, over the separator and the buffer.\<close>

fun append_truncated_tables :: "relnames \<Rightarrow> Oid list \<Rightarrow> string \<Rightarrow> string \<Rightarrow> string" where
  "append_truncated_tables rn [] sep buf = buf"
| "append_truncated_tables rn (reloid # lc) sep buf =
     append_truncated_tables rn lc '', '' (buf @ sep @ qualified_relname rn reloid)"

definition bdr_finish_truncate :: "relnames \<Rightarrow> backend \<Rightarrow> unit result" where
  "bdr_finish_truncate rn st =
     (if length (bdr_truncated_tables st) < 1 then (Inr (), st)
      else
        let buf = append_truncated_tables rn (bdr_truncated_tables st) [] ''TRUNCATE TABLE ONLY ''
        in
          (case bdr_queue_ddl_command ''TRUNCATE (automatic)'' buf st of
             (Inl e, st') \<Rightarrow> (Inl e, st')
           | (Inr _, st') \<Rightarrow> (Inr (), st'\<lparr>bdr_truncated_tables := []\<rparr>)))"

text \<open>How a function of this file is called: by the trigger manager, by the event
  trigger manager, or by neither.\<close>

record TriggerData =
  TRIGGER_FIRED_BY_TRUNCATE :: bool
  tg_relation :: Oid

datatype fcinfo_context = No_context | Trigger_context TriggerData | Event_trigger_context string

definition bdr_queue_truncate :: "fcinfo_context \<Rightarrow> backend \<Rightarrow> unit result" where
  "bdr_queue_truncate ctx st =
     (case ctx of
        Trigger_context tdata \<Rightarrow>
          if \<not> TRIGGER_FIRED_BY_TRUNCATE tdata
          then (Inl (Error ERRCODE_INTERNAL_ERROR
                  ''function \"%s\" was not called by TRUNCATE'' [S ''bdr_queue_truncate''] None), st)
          else if in_bdr_replicate_ddl_command st then (Inr (), st)
          else if replication_origin_id st \<noteq> InvalidRepNodeId then (Inr (), st)
          else (Inr (), st\<lparr>bdr_truncated_tables := bdr_truncated_tables st @ [tg_relation tdata]\<rparr>)
      | _ \<Rightarrow>
          (Inl (Error ERRCODE_E_R_I_E_TRIGGER_PROTOCOL_VIOLATED
             ''function \"%s\" was not called by trigger manager'' [S ''bdr_queue_truncate''] None),
           st))"

subsection \<open>Commands reported by the event trigger facility\<close>

definition SPI_OK_SELECT :: int where
  "SPI_OK_SELECT = 5"

text \<open>
  A row of \<^verbatim>\<open>pg_event_trigger_get_creation_commands()\<close> as the query of
  \<^verbatim>\<open>bdr_queue_ddl_commands\<close> selects it; \<open>None\<close> is SQL NULL.
\<close>

record creation_command =
  cc_command_tag :: "string option"
  cc_object_type :: "string option"
  cc_schema :: "string option"
  cc_identity :: "string option"
  cc_in_extension :: "bool option"
  cc_command :: "string option"

text \<open>\<^verbatim>\<open>DatumGetBool\<close> of a column: the Datum of a NULL column is zero.\<close>

definition DatumGetBool :: "bool option \<Rightarrow> bool" where
  "DatumGetBool d = (case d of None \<Rightarrow> False | Some b \<Rightarrow> b)"

fun queue_creation_commands :: "creation_command list \<Rightarrow> backend \<Rightarrow> unit result" where
  "queue_creation_commands [] st = (Inr (), st)"
| "queue_creation_commands (r # tuptable) st =
     (if cc_schema r = Some ''pg_temp'' then queue_creation_commands tuptable st
      else if DatumGetBool (cc_in_extension r) then queue_creation_commands tuptable st
      else
        (case (cc_command_tag r, cc_command r) of
           (Some tag, Some cmd) \<Rightarrow>
             (case bdr_queue_ddl_command tag cmd st of
                (Inl e, st') \<Rightarrow> (Inl e, st')
              | (Inr _, st') \<Rightarrow> queue_creation_commands tuptable st')
         | _ \<Rightarrow> (Inl (Crash ''TextDatumGetCString''), st)))"

text \<open>
  \<^verbatim>\<open>bdr_queue_ddl_commands\<close>, the handler of the \<^verbatim>\<open>ddl_command_end\<close> event. The
  query it runs through SPI is the engine's: its result code and its rows are arguments.
\<close>

definition bdr_queue_ddl_commands :: "int \<times> creation_command list \<Rightarrow> backend \<Rightarrow> unit result" where
  "bdr_queue_ddl_commands spi st =
     (if in_bdr_replicate_ddl_command st then (Inr (), st)
      else if replication_origin_id st \<noteq> InvalidRepNodeId then (Inr (), st)
      else if skip_ddl_replication st = ''on'' then (Inr (), st)
      else if fst spi \<noteq> SPI_OK_SELECT
      then (Inl (Error ERRCODE_INTERNAL_ERROR ''SPI query failed: %d'' [D (fst spi)] None), st)
      else queue_creation_commands (snd spi) st)"

subsection \<open>Dropped objects\<close>

text \<open>A row of \<^verbatim>\<open>pg_event_trigger_dropped_objects()\<close> as the query selects it.\<close>

record dropped_row =
  original :: "bool option"
  normal :: "bool option"
  object_type :: "string option"
  address_names :: "string list option"
  address_args :: "string list option"

text \<open>The loop that collects \<^verbatim>\<open>droppedobjs\<close>: a row neither original nor normal is skipped.\<close>

fun collect_dropped_objects :: "dropped_row list \<Rightarrow> dropped_object list \<Rightarrow> dropped_object list" where
  "collect_dropped_objects [] droppedobjs = droppedobjs"
| "collect_dropped_objects (r # tuptable) droppedobjs =
     (if (original r = None \<or> \<not> DatumGetBool (original r))
         \<and> (normal r = None \<or> \<not> DatumGetBool (normal r))
      then collect_dropped_objects tuptable droppedobjs
      else collect_dropped_objects tuptable
             (droppedobjs @ [(object_type r, address_names r, address_args r)]))"

definition bdr_queue_dropped_objects ::
  "fcinfo_context \<Rightarrow> int \<times> dropped_row list \<Rightarrow> backend \<Rightarrow> unit result" where
  "bdr_queue_dropped_objects ctx spi st =
     (case ctx of
        Event_trigger_context _ \<Rightarrow>
          if in_bdr_replicate_ddl_command st then (Inr (), st)
          else if replication_origin_id st \<noteq> InvalidRepNodeId then (Inr (), st)
          else if skip_ddl_replication st = ''on'' then (Inr (), st)
          else if fst spi \<noteq> SPI_OK_SELECT
          then (Inl (Error ERRCODE_INTERNAL_ERROR ''SPI query failed: %d'' [D (fst spi)] None), st)
          else
            let droppedobjs = collect_dropped_objects (snd spi) [] in
            if length droppedobjs = 0 then (Inr (), st)
            else
              let newtup = \<lparr>drop_lsn = pg_current_xlog_location st, drop_queued_at = now st,
                            dropped_objects = droppedobjs\<rparr>;
                  st1 = st\<lparr>bdr_queued_drops := bdr_queued_drops st @ [newtup]\<rparr>
              in
                (case UserTableUpdateOpenIndexes (queued_drops_indexes st1) of
                   Inl e \<Rightarrow> (Inl e, st1)
                 | Inr _ \<Rightarrow> (Inr (), st1))
      | _ \<Rightarrow>
          (Inl (Error ERRCODE_INTERNAL_ERROR ''%s: not fired by event trigger manager''
                  [S ''bdr_queue_dropped_objects''] None), st))"

subsection \<open>Replicating a command given as text\<close>

text \<open>
  \<^verbatim>\<open>bdr_replicate_ddl_command\<close>. \<^verbatim>\<open>bdr_execute_ddl_command\<close> is defined outside this
  file and is the argument \<open>exec\<close>: it takes the query, the user and a flag, and returns
  or raises, changing the state of the backend. \<^verbatim>\<open>PG_TRY\<close> and \<^verbatim>\<open>PG_CATCH\<close> are
  the two case distinctions: an error of either call resets the flag and is raised again.
\<close>

definition bdr_replicate_ddl_command ::
  "(string \<Rightarrow> string \<Rightarrow> bool \<Rightarrow> backend \<Rightarrow> unit result) \<Rightarrow> string \<Rightarrow> backend \<Rightarrow> unit result" where
  "bdr_replicate_ddl_command exec query st =
     (let st1 = st\<lparr>search_path := []\<rparr>;
          st2 = st1\<lparr>in_bdr_replicate_ddl_command := True\<rparr>
      in
        (case bdr_queue_ddl_command ''SQL'' query st2 of
           (Inl e, st3) \<Rightarrow> (Inl e, st3\<lparr>in_bdr_replicate_ddl_command := False\<rparr>)
         | (Inr _, st3) \<Rightarrow>
             (case exec query (user_name st3) False st3 of
                (Inl e, st4) \<Rightarrow> (Inl e, st4\<lparr>in_bdr_replicate_ddl_command := False\<rparr>)
              | (Inr _, st4) \<Rightarrow> (Inr (), st4\<lparr>in_bdr_replicate_ddl_command := False\<rparr>))))"

text \<open>
  Modelled from the spec: \<^verbatim>\<open>bdr_execute_ddl_command\<close> is not in this file. The spec
  says that the entry point "executes it locally" and that the same text "may also be
  observed by the post-DDL-statement callback": running the command locally makes the
  engine call the callbacks of this file, in some order and with some arguments, and it
  ends normally or with an error of the engine's. \<open>ddl_event\<close> is one such call.
\<close>

datatype ddl_event =
    Ddl_command_end "int \<times> creation_command list"
  | Sql_drop fcinfo_context "int \<times> dropped_row list"
  | Truncate fcinfo_context

definition fire_event :: "ddl_event \<Rightarrow> backend \<Rightarrow> unit result" where
  "fire_event ev st =
     (case ev of
        Ddl_command_end spi \<Rightarrow> bdr_queue_ddl_commands spi st
      | Sql_drop ctx spi \<Rightarrow> bdr_queue_dropped_objects ctx spi st
      | Truncate ctx \<Rightarrow> bdr_queue_truncate ctx st)"

fun fire_events :: "ddl_event list \<Rightarrow> backend \<Rightarrow> unit result" where
  "fire_events [] st = (Inr (), st)"
| "fire_events (ev # evs) st =
     (case fire_event ev st of
        (Inl e, st') \<Rightarrow> (Inl e, st')
      | (Inr _, st') \<Rightarrow> fire_events evs st')"

text \<open>
  Modelled from the spec: the local execution of a command. It fires the calls the engine
  makes for the command, stops at the first that raises, and otherwise ends as the
  engine's own work on the command does (\<open>failure\<close>).
\<close>

definition bdr_execute_ddl_command ::
  "ddl_event list \<Rightarrow> error option \<Rightarrow> string \<Rightarrow> string \<Rightarrow> bool \<Rightarrow> backend \<Rightarrow> unit result" where
  "bdr_execute_ddl_command events failure cmdstr perp tx_just_started st =
     (case fire_events events st of
        (Inl e, st') \<Rightarrow> (Inl e, st')
      | (Inr _, st') \<Rightarrow>
          (case failure of
             Some e \<Rightarrow> (Inl e, st')
           | None \<Rightarrow> (Inr (), st')))"

section \<open>Example inputs\<close>

text \<open>
  A backend of a writable node with empty queues, outside any replay, and the same
  backend inside \<^verbatim>\<open>bdr_replicate_ddl_command\<close>.
\<close>

definition idle_indexes :: index_update where
  "idle_indexes = \<lparr>HeapTupleIsHeapOnly = False, ri_NumIndices = 1, ExecInsertIndexTuples = []\<rparr>"

definition backend0 :: backend where
  "backend0 =
     \<lparr>in_bdr_replicate_ddl_command = False, bdr_truncated_tables = [],
      replication_origin_id = 0, skip_ddl_replication = ''off'', search_path = ''public'',
      pg_current_xlog_location = 100, now = 7, user_name = ''alice'',
      bdr_queued_commands = [], bdr_queued_drops = [],
      queued_commands_indexes = idle_indexes, queued_drops_indexes = idle_indexes,
      backend_log = []\<rparr>"

definition guarded_backend :: backend where
  "guarded_backend = backend0\<lparr>in_bdr_replicate_ddl_command := True\<rparr>"

definition create_table_row :: creation_command where
  "create_table_row =
     \<lparr>cc_command_tag = Some ''CREATE TABLE'', cc_object_type = Some ''table'',
      cc_schema = Some ''public'', cc_identity = Some ''public.t'',
      cc_in_extension = Some False, cc_command = Some ''CREATE TABLE public.t()''\<rparr>"

text \<open>
  A writable and a read-only node with three tables: \<open>orders\<close>, durable and without a
  replica identity; \<open>staging\<close>, unlogged; and the catalog table \<open>pg_class\<close>. A
  statement of a given kind with one of them as its only result relation.
\<close>

definition orders :: RelationData where
  "orders = \<lparr>rd_id = 16384, rd_relname = ''orders'', rd_relpersistence = RELPERSISTENCE_PERMANENT,
     rd_relnamespace = 2200, rd_indexvalid = 0, rd_replidindex = 0\<rparr>"

definition staging :: RelationData where
  "staging = \<lparr>rd_id = 16390, rd_relname = ''staging'', rd_relpersistence = RELPERSISTENCE_UNLOGGED,
     rd_relnamespace = 2200, rd_indexvalid = 0, rd_replidindex = 0\<rparr>"

definition pg_class :: RelationData where
  "pg_class = \<lparr>rd_id = 1259, rd_relname = ''pg_class'', rd_relpersistence = RELPERSISTENCE_PERMANENT,
     rd_relnamespace = 11, rd_indexvalid = 0, rd_replidindex = 0\<rparr>"

definition command_tag_of :: "PlannedStmt \<Rightarrow> string" where
  "command_tag_of ps =
     (case commandType ps of
        CMD_INSERT \<Rightarrow> ''INSERT'' | CMD_UPDATE \<Rightarrow> ''UPDATE'' | CMD_DELETE \<Rightarrow> ''DELETE''
      | _ \<Rightarrow> ''???'')"

definition writable_node :: gate_env where
  "writable_node =
     \<lparr>bdr_always_allow_writes = False, PrevExecutorStart_hook = False,
      bdr_is_bdr_activated_db = True, bdr_local_node_read_only = False,
      bdr_locks_check_dml = None,
      RelationIdGetRelation =
        (\<lambda>oid. if oid = 16384 then Some orders else if oid = 16390 then Some staging
               else if oid = 1259 then Some pg_class else None),
      replica_identity_index = (\<lambda>rel. 0),
      CreateCommandTag = command_tag_of\<rparr>"

definition read_only_node :: gate_env where
  "read_only_node = writable_node\<lparr>bdr_local_node_read_only := True\<rparr>"

definition statement_on :: "CmdType \<Rightarrow> Oid \<Rightarrow> QueryDesc" where
  "statement_on cmd oid =
     \<lparr>operation = cmd,
      plannedstmt = Some \<lparr>commandType = cmd, hasModifyingCTE = False, rowMarks = [],
        rtable = [\<lparr>relid = oid\<rparr>], resultRelations = [1]\<rparr>\<rparr>"

text \<open>
  Names for two tables of the schema \<open>public\<close>, the call of the truncate trigger for
  a table, the creation of a temporary table as the event trigger facility reports it,
  and three rows of dropped objects: a temporary table dropped by the command itself, an
  object dropped neither as original nor as normal, and an index dropped as a normal
  dependency.
\<close>

definition plain_relnames :: relnames where
  "plain_relnames =
     \<lparr>get_rel_namespace = (\<lambda>reloid. 2200),
      get_namespace_name = (\<lambda>nsp. ''public''),
      get_rel_name = (\<lambda>reloid. if reloid = 16384 then ''t1'' else ''t2''),
      quote_qualified_identifier = (\<lambda>qualifier ident. qualifier @ ''.'' @ ident)\<rparr>"

definition truncate_of :: "Oid \<Rightarrow> fcinfo_context" where
  "truncate_of reloid = Trigger_context \<lparr>TRIGGER_FIRED_BY_TRUNCATE = True, tg_relation = reloid\<rparr>"

definition temp_table_row :: creation_command where
  "temp_table_row =
     \<lparr>cc_command_tag = Some ''CREATE TABLE'', cc_object_type = Some ''table'',
      cc_schema = Some ''pg_temp'', cc_identity = Some ''pg_temp.t'',
      cc_in_extension = Some False, cc_command = Some ''CREATE TEMPORARY TABLE t()''\<rparr>"

definition temp_table_drop :: dropped_row where
  "temp_table_drop =
     \<lparr>original = Some True, normal = Some False, object_type = Some ''table'',
      address_names = Some [''pg_temp'', ''t''], address_args = Some []\<rparr>"

definition internal_drop :: dropped_row where
  "internal_drop =
     \<lparr>original = Some False, normal = None, object_type = Some ''type'',
      address_names = Some [''public.t''], address_args = Some []\<rparr>"

definition index_drop :: dropped_row where
  "index_drop =
     \<lparr>original = Some False, normal = Some True, object_type = Some ''index'',
      address_names = Some [''public'', ''t_pkey''], address_args = Some []\<rparr>"

text \<open>
  An engine whose storage is a clock. At time 0 the key matches a row that transaction 900
  is deleting; from time 1 on it matches two committed rows; from time 9 on nothing. A
  wait and a lock attempt each take one tick; the lock attempt finds the row updated at
  time 1 and would block at time 5.
\<close>

definition row_v1 :: HeapTupleData where
  "row_v1 = \<lparr>t_self = (0, 1), t_data = [42, 1]\<rparr>"

definition row_v2 :: HeapTupleData where
  "row_v2 = \<lparr>t_self = (0, 2), t_data = [42, 2]\<rparr>"

definition row_v3 :: HeapTupleData where
  "row_v3 = \<lparr>t_self = (0, 3), t_data = [42, 3]\<rparr>"

definition busy_engine :: "nat engine" where
  "busy_engine =
     \<lparr>index_rescan = (\<lambda>e skey.
        if e = 0 then [\<lparr>scantuple = row_v1, snap_xmin = 0, snap_xmax = 900\<rparr>]
        else if e < 9 then [\<lparr>scantuple = row_v2, snap_xmin = 0, snap_xmax = 0\<rparr>,
              \<lparr>scantuple = row_v3, snap_xmin = 0, snap_xmax = 0\<rparr>]
        else []),
      XactLockTableWait = (\<lambda>xid e. e + 1),
      heap_lock_tuple = (\<lambda>tid mode e.
        (if e = 1 then HeapTupleUpdated else if e = 5 then HeapTupleWouldBlock
         else HeapTupleMayBeUpdated, e + 1))\<rparr>"

definition key42 :: "ScanKeyData list" where
  "key42 = [ScanKeyInit 1 BTEqualStrategyNumber 65 42]"

definition scan_at :: "nat \<Rightarrow> nat scan_state" where
  "scan_at e = \<lparr>storage = e, slot = None, server_log = []\<rparr>"

text \<open>
  A catalog with an equality operator for every operator class, a row whose first column
  is 42 and whose second column is null, and four indexes: a unique index on the first
  column, a unique expression index, a non-unique index, and a unique index on both
  columns. \<open>null_column\<close> says that the row is null in the table column of an index column.
\<close>

definition int4_catalog :: syscache where
  "int4_catalog =
     \<lparr>attnumTypeId = (\<lambda>attno. 23),
      get_opclass_input_type = (\<lambda>opclass. 23),
      get_opclass_family = (\<lambda>opclass. 1976),
      get_opfamily_member = (\<lambda>opfamily lefttype righttype strategy. 96),
      get_opcode = (\<lambda>opno. 65)\<rparr>"

definition half_null_tuple :: BDRTupleData where
  "half_null_tuple =
     \<lparr>tup_values = (\<lambda>i. if i = 0 then 42 else 0), tup_isnull = (\<lambda>i. i = 1)\<rparr>"

definition four_indexes :: "(IndexInfo \<times> IndexRelation) list" where
  "four_indexes =
     [(\<lparr>ii_NumIndexAttrs = 1, ii_Unique = True, ii_Expressions = []\<rparr>,
       \<lparr>idx_natts = 1, indkey = [1], indclass = [1978]\<rparr>),
      (\<lparr>ii_NumIndexAttrs = 1, ii_Unique = True, ii_Expressions = [1]\<rparr>,
       \<lparr>idx_natts = 1, indkey = [0], indclass = [1978]\<rparr>),
      (\<lparr>ii_NumIndexAttrs = 1, ii_Unique = False, ii_Expressions = []\<rparr>,
       \<lparr>idx_natts = 1, indkey = [1], indclass = [1978]\<rparr>),
      (\<lparr>ii_NumIndexAttrs = 2, ii_Unique = True, ii_Expressions = []\<rparr>,
       \<lparr>idx_natts = 2, indkey = [1, 2], indclass = [1978, 1978]\<rparr>)]"

definition null_column :: "IndexRelation \<Rightarrow> BDRTupleData \<Rightarrow> nat \<Rightarrow> bool" where
  "null_column idxrel tup attoff = tup_isnull tup (nat (indkey idxrel ! attoff - 1))"

text \<open>
  A backend whose command queue has an index that asks for a recheck, and an engine on
  whose storage the key always matches a row that a transaction in progress is deleting.
\<close>

definition recheck_backend :: backend where
  "recheck_backend =
     backend0\<lparr>queued_commands_indexes :=
       \<lparr>HeapTupleIsHeapOnly = False, ri_NumIndices = 1, ExecInsertIndexTuples = [16400]\<rparr>\<rparr>"

definition stuck_engine :: "nat engine" where
  "stuck_engine =
     \<lparr>index_rescan = (\<lambda>e skey. [\<lparr>scantuple = row_v1, snap_xmin = 0, snap_xmax = 900\<rparr>]),
      XactLockTableWait = (\<lambda>xid e. e + 1),
      heap_lock_tuple = (\<lambda>tid mode e. (HeapTupleMayBeUpdated, e))\<rparr>"

section \<open>Properties of the replication queue\<close>

subsection \<open>What one call of the queue function does\<close>

lemma queue_ddl_command_rows:
  "bdr_queued_commands (snd (bdr_queue_ddl_command tag cmd st)) =
     bdr_queued_commands st @
       [\<lparr>lsn = pg_current_xlog_location st, queued_at = now st, perpetrator = user_name st,
         command_tag = tag, command = cmd\<rparr>]"
  by (simp add: bdr_queue_ddl_command_def Let_def split: sum.split)

lemma queue_ddl_command_guard:
  "in_bdr_replicate_ddl_command (snd (bdr_queue_ddl_command tag cmd st)) =
     in_bdr_replicate_ddl_command st"
  by (simp add: bdr_queue_ddl_command_def Let_def split: sum.split)

lemma queue_ddl_command_truncated:
  "bdr_truncated_tables (snd (bdr_queue_ddl_command tag cmd st)) = bdr_truncated_tables st"
  by (simp add: bdr_queue_ddl_command_def Let_def split: sum.split)

lemma queue_ddl_command_outcome:
  "fst (bdr_queue_ddl_command tag cmd st) =
     UserTableUpdateOpenIndexes (queued_commands_indexes st)"
  by (simp add: bdr_queue_ddl_command_def Let_def split: sum.split)

subsection \<open>The callbacks under the local-DDL guard\<close>

lemma fire_event_guarded:
  "in_bdr_replicate_ddl_command st \<Longrightarrow> snd (fire_event ev st) = st"
  by (cases ev)
     (simp_all add: fire_event_def bdr_queue_ddl_commands_def bdr_queue_dropped_objects_def
        bdr_queue_truncate_def split: fcinfo_context.split)

lemma fire_events_guarded:
  "in_bdr_replicate_ddl_command st \<Longrightarrow> snd (fire_events evs st) = st"
proof (induction evs)
  case Nil
  then show ?case by simp
next
  case (Cons ev evs)
  obtain r st' where f: "fire_event ev st = (r, st')"
    by (cases "fire_event ev st")
  with fire_event_guarded [OF Cons.prems, of ev] have "st' = st"
    by simp
  with f Cons show ?case
    by (cases r) simp_all
qed

lemma execute_ddl_guarded:
  "in_bdr_replicate_ddl_command st \<Longrightarrow>
     snd (bdr_execute_ddl_command events failure q u f st) = st"
  using fire_events_guarded [of st events]
  by (cases "fire_events events st")
     (auto simp: bdr_execute_ddl_command_def split: sum.split option.split)

text \<open>
  Outside the guard the post-DDL callback does queue the command it is told about: the
  suppression in the theorem further down is the guard's doing.
\<close>

lemma ddl_commands_unguarded_example:
  "bdr_queued_commands (snd (bdr_queue_ddl_commands (5, [create_table_row]) backend0)) =
     [\<lparr>lsn = 100, queued_at = 7, perpetrator = ''alice'', command_tag = ''CREATE TABLE'',
       command = ''CREATE TABLE public.t()''\<rparr>]"
  by (simp add: bdr_queue_ddl_commands_def backend0_def create_table_row_def
      InvalidRepNodeId_def SPI_OK_SELECT_def DatumGetBool_def bdr_queue_ddl_command_def
      UserTableUpdateOpenIndexes_def idle_indexes_def Let_def)

subsection \<open>C2: the queue function and the recursion guards\<close>

text \<open>
  Claim C2 says that \<^verbatim>\<open>bdr_queue_ddl_command\<close> is a silent no-op when a recursion guard
  is set or the switch \<^verbatim>\<open>bdr.skip_ddl_replication\<close> is on. The function tests neither:
  inside \<^verbatim>\<open>bdr_replicate_ddl_command\<close>, with the local-DDL flag set, it appends its
  row, which is how that entry point queues its command at all.
\<close>

theorem queue_ddl_command_guard_counterexample:
  "in_bdr_replicate_ddl_command guarded_backend
   \<and> bdr_queued_commands guarded_backend = []
   \<and> fst (bdr_queue_ddl_command ''SQL'' ''DROP TABLE public.t'' guarded_backend) = Inr ()
   \<and> bdr_queued_commands
       (snd (bdr_queue_ddl_command ''SQL'' ''DROP TABLE public.t'' guarded_backend)) =
     [\<lparr>lsn = 100, queued_at = 7, perpetrator = ''alice'', command_tag = ''SQL'',
       command = ''DROP TABLE public.t''\<rparr>]"
  by (simp add: guarded_backend_def backend0_def bdr_queue_ddl_command_def
      UserTableUpdateOpenIndexes_def idle_indexes_def Let_def)

text \<open>
  C2 as amended: every call of \<^verbatim>\<open>bdr_queue_ddl_command\<close> appends exactly one row with
  the given tag and text, whatever the guards and the switch say, and raises nothing
  unless the index update of the queue table does. The short-circuit is the caller's:
  the post-DDL callback \<^verbatim>\<open>bdr_queue_ddl_commands\<close> returns at once, changing nothing
  and raising nothing, when the local-DDL flag is set, when a remote change is being
  applied, or when the switch is on.
\<close>

theorem queue_ddl_command_appends_one_row:
  "bdr_queued_commands (snd (bdr_queue_ddl_command tag cmd st)) =
     bdr_queued_commands st @
       [\<lparr>lsn = pg_current_xlog_location st, queued_at = now st, perpetrator = user_name st,
         command_tag = tag, command = cmd\<rparr>]
   \<and> fst (bdr_queue_ddl_command tag cmd st) =
       UserTableUpdateOpenIndexes (queued_commands_indexes st)
   \<and> (in_bdr_replicate_ddl_command st \<or> replication_origin_id st \<noteq> InvalidRepNodeId
        \<or> skip_ddl_replication st = ''on''
      \<longrightarrow> bdr_queue_ddl_commands spi st = (Inr (), st))"
  by (simp add: queue_ddl_command_rows queue_ddl_command_outcome bdr_queue_ddl_commands_def)

theorem queue_ddl_command_appends_one_row_witness:
  "bdr_queued_commands
     (snd (bdr_queue_ddl_command ''SQL'' ''DROP TABLE public.t'' guarded_backend)) =
     [\<lparr>lsn = 100, queued_at = 7, perpetrator = ''alice'', command_tag = ''SQL'',
       command = ''DROP TABLE public.t''\<rparr>]
   \<and> fst (bdr_queue_ddl_command ''SQL'' ''DROP TABLE public.t'' guarded_backend) = Inr ()
   \<and> in_bdr_replicate_ddl_command guarded_backend
   \<and> bdr_queue_ddl_commands (5, [create_table_row]) guarded_backend = (Inr (), guarded_backend)"
  using queue_ddl_command_appends_one_row
    [of "''SQL''" "''DROP TABLE public.t''" guarded_backend "(5, [create_table_row])"]
  by (simp add: guarded_backend_def backend0_def UserTableUpdateOpenIndexes_def
      idle_indexes_def)

subsection \<open>C3: one row for a command replicated as text\<close>

text \<open>
  Claim C3: \<^verbatim>\<open>bdr_replicate_ddl_command\<close> leaves exactly one new row in the command
  queue, with the tag \<open>SQL\<close> and the text it was given, whatever callbacks of this file
  the local execution fires and with whatever rows, because every one of them returns at
  the local-DDL guard (second part: the post-DDL callback changes nothing while the
  flag is set). The local execution is \<open>bdr_execute_ddl_command\<close> as modelled above.
\<close>

theorem replicate_ddl_command_one_row:
  "bdr_queued_commands
     (snd (bdr_replicate_ddl_command (bdr_execute_ddl_command events failure) query st)) =
   bdr_queued_commands st @
     [\<lparr>lsn = pg_current_xlog_location st, queued_at = now st, perpetrator = user_name st,
       command_tag = ''SQL'', command = query\<rparr>]
   \<and> (in_bdr_replicate_ddl_command st' \<longrightarrow> bdr_queue_ddl_commands spi st' = (Inr (), st'))"
proof -
  let ?st2 = "st\<lparr>search_path := [], in_bdr_replicate_ddl_command := True\<rparr>"
  obtain r st3 where q: "bdr_queue_ddl_command ''SQL'' query ?st2 = (r, st3)"
    by (cases "bdr_queue_ddl_command ''SQL'' query ?st2")
  have rows: "bdr_queued_commands st3 = bdr_queued_commands st @
     [\<lparr>lsn = pg_current_xlog_location st, queued_at = now st, perpetrator = user_name st,
       command_tag = ''SQL'', command = query\<rparr>]"
    using queue_ddl_command_rows [of "''SQL''" query ?st2] q by simp
  have guard: "in_bdr_replicate_ddl_command st3"
    using queue_ddl_command_guard [of "''SQL''" query ?st2] q by simp
  have ex: "snd (bdr_execute_ddl_command events failure query (user_name st3) False st3) = st3"
    by (rule execute_ddl_guarded [OF guard])
  have one: "bdr_queued_commands
     (snd (bdr_replicate_ddl_command (bdr_execute_ddl_command events failure) query st)) =
   bdr_queued_commands st @
     [\<lparr>lsn = pg_current_xlog_location st, queued_at = now st, perpetrator = user_name st,
       command_tag = ''SQL'', command = query\<rparr>]"
    using q rows ex
    by (cases r; cases "bdr_execute_ddl_command events failure query (user_name st3) False st3")
       (auto simp: bdr_replicate_ddl_command_def Let_def split: sum.split)
  show ?thesis
    using one by (simp add: bdr_queue_ddl_commands_def)
qed

theorem replicate_ddl_command_one_row_witness:
  "bdr_queued_commands
     (snd (bdr_replicate_ddl_command
             (bdr_execute_ddl_command [Ddl_command_end (5, [create_table_row])] None)
             ''CREATE TABLE public.t()'' backend0)) =
     [\<lparr>lsn = 100, queued_at = 7, perpetrator = ''alice'', command_tag = ''SQL'',
       command = ''CREATE TABLE public.t()''\<rparr>]
   \<and> in_bdr_replicate_ddl_command guarded_backend
   \<and> bdr_queue_ddl_commands (5, [create_table_row]) guarded_backend = (Inr (), guarded_backend)"
  using replicate_ddl_command_one_row
    [of "[Ddl_command_end (5, [create_table_row])]" None "''CREATE TABLE public.t()''" backend0
        guarded_backend "(5, [create_table_row])"]
  by (simp add: guarded_backend_def backend0_def)

subsection \<open>C4: the local-DDL guard is reset on every exit\<close>

text \<open>
  Claim C4: when \<^verbatim>\<open>bdr_replicate_ddl_command\<close> hands control back, by returning or by
  raising again the error of the queue insert or of the local execution, the flag
  \<open>in_bdr_replicate_ddl_command\<close> is false. This holds for every local execution
  \<open>exec\<close>, also one that changes the flag itself.
\<close>

theorem replicate_ddl_command_guard_reset:
  "\<not> in_bdr_replicate_ddl_command (snd (bdr_replicate_ddl_command exec query st))"
  by (simp add: bdr_replicate_ddl_command_def Let_def split: prod.split sum.split)

subsection \<open>C6: one command for the tables truncated in a transaction\<close>

lemma append_truncated_tables_two:
  "append_truncated_tables rn [t1, t2] [] buf =
     buf @ qualified_relname rn t1 @ '', '' @ qualified_relname rn t2"
  by simp

text \<open>
  Claim C6. A transaction starts (\<^verbatim>\<open>bdr_start_truncate\<close>), the truncate trigger fires
  for \<open>t1\<close> and then for \<open>t2\<close> outside any replay, so that both are registered, and
  the queue table takes the row. Then \<^verbatim>\<open>bdr_finish_truncate\<close> appends exactly one row,
  with the tag \<open>TRUNCATE (automatic)\<close> and the text \<open>TRUNCATE TABLE ONLY t1, t2\<close>
  (the qualified names in the order of registration), and empties the list. On an empty
  list it does nothing.
\<close>

theorem truncate_batch_one_command:
  assumes "\<not> in_bdr_replicate_ddl_command st"
    and "replication_origin_id st = InvalidRepNodeId"
    and "UserTableUpdateOpenIndexes (queued_commands_indexes st) = Inr ()"
    and "bdr_queue_truncate (truncate_of t1) (bdr_start_truncate st) = (r1, st1)"
    and "bdr_queue_truncate (truncate_of t2) st1 = (r2, st2)"
  shows "r1 = Inr () \<and> r2 = Inr () \<and> bdr_truncated_tables st2 = [t1, t2]
       \<and> fst (bdr_finish_truncate rn st2) = Inr ()
       \<and> bdr_queued_commands (snd (bdr_finish_truncate rn st2)) =
           bdr_queued_commands st @
             [\<lparr>lsn = pg_current_xlog_location st, queued_at = now st,
               perpetrator = user_name st, command_tag = ''TRUNCATE (automatic)'',
               command = ''TRUNCATE TABLE ONLY '' @ qualified_relname rn t1 @ '', '' @
                         qualified_relname rn t2\<rparr>]
       \<and> bdr_truncated_tables (snd (bdr_finish_truncate rn st2)) = []
       \<and> (bdr_truncated_tables st' = [] \<longrightarrow> bdr_finish_truncate rn st' = (Inr (), st'))"
proof -
  have s1: "r1 = Inr ()" "st1 = st\<lparr>bdr_truncated_tables := [t1]\<rparr>"
    using assms(1,2,4)
    by (auto simp: bdr_queue_truncate_def truncate_of_def bdr_start_truncate_def)
  have s2: "r2 = Inr ()" "st2 = st\<lparr>bdr_truncated_tables := [t1, t2]\<rparr>"
    using assms(1,2,5) s1
    by (auto simp: bdr_queue_truncate_def truncate_of_def)
  let ?text = "''TRUNCATE TABLE ONLY '' @ qualified_relname rn t1 @ '', '' @ qualified_relname rn t2"
  obtain r3 st3 where q: "bdr_queue_ddl_command ''TRUNCATE (automatic)'' ?text st2 = (r3, st3)"
    by (cases "bdr_queue_ddl_command ''TRUNCATE (automatic)'' ?text st2")
  have r3: "r3 = Inr ()"
    using queue_ddl_command_outcome [of "''TRUNCATE (automatic)''" ?text st2] q assms(3) s2
    by simp
  have rows: "bdr_queued_commands st3 = bdr_queued_commands st @
             [\<lparr>lsn = pg_current_xlog_location st, queued_at = now st,
               perpetrator = user_name st, command_tag = ''TRUNCATE (automatic)'',
               command = ?text\<rparr>]"
    using queue_ddl_command_rows [of "''TRUNCATE (automatic)''" ?text st2] q s2 by simp
  have fin: "bdr_finish_truncate rn st2 = (Inr (), st3\<lparr>bdr_truncated_tables := []\<rparr>)"
    using q r3 s2 by (simp add: bdr_finish_truncate_def)
  show ?thesis
    using s1 s2 fin rows by (simp add: bdr_finish_truncate_def)
qed

theorem truncate_batch_one_command_witness:
  "bdr_queued_commands
     (snd (bdr_finish_truncate plain_relnames
        (snd (bdr_queue_truncate (truncate_of 16385)
           (snd (bdr_queue_truncate (truncate_of 16384) (bdr_start_truncate backend0))))))) =
     [\<lparr>lsn = 100, queued_at = 7, perpetrator = ''alice'', command_tag = ''TRUNCATE (automatic)'',
       command = ''TRUNCATE TABLE ONLY public.t1, public.t2''\<rparr>]
   \<and> bdr_finish_truncate plain_relnames backend0 = (Inr (), backend0)"
  using truncate_batch_one_command [of backend0 16384
      "fst (bdr_queue_truncate (truncate_of 16384) (bdr_start_truncate backend0))"
      "snd (bdr_queue_truncate (truncate_of 16384) (bdr_start_truncate backend0))"
      16385
      "fst (bdr_queue_truncate (truncate_of 16385)
           (snd (bdr_queue_truncate (truncate_of 16384) (bdr_start_truncate backend0))))"
      "snd (bdr_queue_truncate (truncate_of 16385)
           (snd (bdr_queue_truncate (truncate_of 16384) (bdr_start_truncate backend0))))"
      plain_relnames backend0]
  by (simp add: backend0_def InvalidRepNodeId_def UserTableUpdateOpenIndexes_def
      idle_indexes_def qualified_relname_def plain_relnames_def)

subsection \<open>C7: dropped objects\<close>

lemma collect_dropped_objects_filter:
  "collect_dropped_objects tuptable droppedobjs =
     droppedobjs @
       map (\<lambda>r. (object_type r, address_names r, address_args r))
         (filter (\<lambda>r. original r = Some True \<or> normal r = Some True) tuptable)"
  by (induction tuptable arbitrary: droppedobjs) (auto simp: DatumGetBool_def)

text \<open>
  Claim C7 asks, among other things, that objects of the temporary schema be discarded,
  as the handler of creation commands does for the schema \<open>pg_temp\<close>. The drop handler
  selects no schema column and tests none. Run as the \<^verbatim>\<open>sql_drop\<close> handler, outside
  any replay and with the switch off, on the drop of a temporary table flagged original,
  it appends a row to the queue of drops that holds the temporary table; the handler of
  creation commands, run on the creation of the same table, appends nothing.
\<close>

theorem dropped_objects_queues_temp_table:
  "address_names temp_table_drop = Some [''pg_temp'', ''t'']
   \<and> bdr_queue_dropped_objects (Event_trigger_context ''sql_drop'') (5, [temp_table_drop]) backend0 =
       (Inr (), backend0\<lparr>bdr_queued_drops :=
          [\<lparr>drop_lsn = 100, drop_queued_at = 7,
            dropped_objects = [(Some ''table'', Some [''pg_temp'', ''t''], Some [])]\<rparr>]\<rparr>)
   \<and> cc_schema temp_table_row = Some ''pg_temp''
   \<and> bdr_queue_ddl_commands (5, [temp_table_row]) backend0 = (Inr (), backend0)"
  by (simp add: bdr_queue_dropped_objects_def bdr_queue_ddl_commands_def backend0_def
      temp_table_drop_def temp_table_row_def InvalidRepNodeId_def SPI_OK_SELECT_def
      DatumGetBool_def UserTableUpdateOpenIndexes_def idle_indexes_def Let_def)

text \<open>
  What the drop handler does with the two flags, for a call by the event trigger manager
  that passes the guards and the switch and whose query succeeds. The rows kept are
  exactly those flagged original or normal, in the order reported. If none is kept the
  call changes nothing; otherwise it appends one row to the queue of drops whose array
  holds the kept rows' object type, names and arguments, and it raises nothing unless
  the index update of that table does.
\<close>

lemma dropped_objects_flag_filter:
  assumes "\<not> in_bdr_replicate_ddl_command st"
    and "replication_origin_id st = InvalidRepNodeId"
    and "skip_ddl_replication st \<noteq> ''on''"
    and "fst spi = SPI_OK_SELECT"
    and "kept = filter (\<lambda>r. original r = Some True \<or> normal r = Some True) (snd spi)"
  shows "(kept = [] \<longrightarrow>
            bdr_queue_dropped_objects (Event_trigger_context ev) spi st = (Inr (), st))
       \<and> (kept \<noteq> [] \<longrightarrow>
            bdr_queue_dropped_objects (Event_trigger_context ev) spi st =
              (UserTableUpdateOpenIndexes (queued_drops_indexes st),
               st\<lparr>bdr_queued_drops := bdr_queued_drops st @
                  [\<lparr>drop_lsn = pg_current_xlog_location st, drop_queued_at = now st,
                    dropped_objects =
                      map (\<lambda>r. (object_type r, address_names r, address_args r)) kept\<rparr>]\<rparr>))"
  using assms
  by (auto simp: bdr_queue_dropped_objects_def collect_dropped_objects_filter Let_def
      split: sum.splits)

lemma dropped_objects_flag_filter_example:
  "bdr_queue_dropped_objects (Event_trigger_context ''sql_drop'')
      (5, [internal_drop, index_drop]) backend0 =
     (Inr (), backend0\<lparr>bdr_queued_drops :=
        [\<lparr>drop_lsn = 100, drop_queued_at = 7,
          dropped_objects = [(Some ''index'', Some [''public'', ''t_pkey''], Some [])]\<rparr>]\<rparr>)
   \<and> bdr_queue_dropped_objects (Event_trigger_context ''sql_drop'') (5, [internal_drop]) backend0 =
       (Inr (), backend0)"
  using dropped_objects_flag_filter [of backend0 "(5, [internal_drop, index_drop])"
      "[index_drop]" "''sql_drop''"]
    dropped_objects_flag_filter [of backend0 "(5, [internal_drop])" "[]" "''sql_drop''"]
  by (simp add: backend0_def InvalidRepNodeId_def SPI_OK_SELECT_def internal_drop_def
      index_drop_def UserTableUpdateOpenIndexes_def idle_indexes_def)

text \<open>
  The two error exits of \<^verbatim>\<open>bdr_replicate_ddl_command\<close>, run: the queue insert raises on an index recheck, and the local
  execution raises a syntax error. Each hands back the error with the flag reset.
\<close>

lemma replicate_ddl_command_insert_fails_example:
  "fst (bdr_replicate_ddl_command (bdr_execute_ddl_command [] None) ''DROP TABLE public.t''
          recheck_backend) =
     Inl (Error ERRCODE_FEATURE_NOT_SUPPORTED ''bdr doesn't support index rechecks'' [] None)
   \<and> \<not> in_bdr_replicate_ddl_command
         (snd (bdr_replicate_ddl_command (bdr_execute_ddl_command [] None)
                 ''DROP TABLE public.t'' recheck_backend))"
  by (simp add: bdr_replicate_ddl_command_def bdr_queue_ddl_command_def recheck_backend_def
      backend0_def UserTableUpdateOpenIndexes_def Let_def)

lemma replicate_ddl_command_execution_fails_example:
  "fst (bdr_replicate_ddl_command
          (bdr_execute_ddl_command [] (Some (Error ERRCODE_INTERNAL_ERROR ''syntax error'' [] None)))
          ''DROP TABEL public.t'' backend0) =
     Inl (Error ERRCODE_INTERNAL_ERROR ''syntax error'' [] None)
   \<and> \<not> in_bdr_replicate_ddl_command
         (snd (bdr_replicate_ddl_command
                 (bdr_execute_ddl_command [] (Some (Error ERRCODE_INTERNAL_ERROR ''syntax error'' [] None)))
                 ''DROP TABEL public.t'' backend0))"
  by (simp add: bdr_replicate_ddl_command_def bdr_queue_ddl_command_def backend0_def
      bdr_execute_ddl_command_def UserTableUpdateOpenIndexes_def idle_indexes_def Let_def)

section \<open>Properties of the write gate\<close>

text \<open>
  The loop stops at the first relation that \<open>check_relation\<close> refuses, with its error.
\<close>

lemma check_result_relations_find:
  "result_relations env ps l = Some rels \<Longrightarrow>
     check_result_relations env ro ps l =
       (case find (\<lambda>rel. check_relation env ro ps rel \<noteq> None) rels of
          None \<Rightarrow> Inr ()
        | Some rel \<Rightarrow> Inl (the (check_relation env ro ps rel)))"
proof (induction l arbitrary: rels)
  case Nil
  then show ?case by simp
next
  case (Cons rtei l)
  then show ?case
    by (auto split: option.splits)
qed

lemma check_relation_writable:
  "check_relation env False ps rel =
     (if gated_table rel \<and> \<not> OidIsValid (replica_identity env rel)
      then Some (no_primary_key_error rel) else None)"
  by (auto simp: check_relation_def gated_table_def replica_identity_def Let_def
      no_primary_key_error_def RelationGetRelationName_def RelationGetIndexList_def)

lemma check_relation_read_only:
  "check_relation env True ps rel =
     (if gated_table rel then Some (read_only_error env ps rel) else None)"
  by (auto simp: check_relation_def gated_table_def)

lemma find_cong_pred: "(\<And>x. P x = Q x) \<Longrightarrow> find P xs = find Q xs"
  by (induction xs) auto

subsection \<open>C1: plain INSERT against UPDATE and DELETE on a writable node\<close>

text \<open>
  Claim C1, for a statement that reaches the checks of the write gate (the override that
  allows every write is off, the database is replication-enabled, the check of the
  cluster-wide locks returns) on a node that is not read-only. A plain INSERT without
  a modifying sub-query is handed to the next handler, whatever its target tables are.
  An UPDATE or DELETE with a durable, non-catalog result relation that has no replica
  identity index is rejected: the error carries the name of the first such relation (the
  table itself when it is the statement's one target) and the hint to add a primary key.
\<close>

theorem write_gate_insert_and_update:
  assumes "\<not> bdr_always_allow_writes env" and "bdr_is_bdr_activated_db env"
    and "\<not> bdr_local_node_read_only env" and "bdr_locks_check_dml env = None"
    and "plannedstmt queryDesc = Some ps"
  shows "(operation queryDesc = CMD_INSERT \<and> \<not> hasModifyingCTE ps
            \<longrightarrow> BdrExecutorStart env queryDesc = Inr (next_executor_start env))
       \<and> ((operation queryDesc = CMD_UPDATE \<or> operation queryDesc = CMD_DELETE)
           \<and> result_relations env ps (resultRelations ps) = Some rels
           \<and> find (\<lambda>rel. gated_table rel \<and> \<not> OidIsValid (replica_identity env rel)) rels = Some rel
            \<longrightarrow> BdrExecutorStart env queryDesc =
                  Inl (Error ERRCODE_OBJECT_NOT_IN_PREREQUISITE_STATE
                    ''Cannot run UPDATE or DELETE on table %s because it does not have a PRIMARY KEY.''
                    [S (rd_relname rel)] (Some ''Add a PRIMARY KEY to the table'')))"
proof (intro conjI impI)
  assume "operation queryDesc = CMD_INSERT \<and> \<not> hasModifyingCTE ps"
  with assms show "BdrExecutorStart env queryDesc = Inr (next_executor_start env)"
    by (simp add: BdrExecutorStart_def performs_writes_def delegate_def next_executor_start_def)
next
  assume a: "(operation queryDesc = CMD_UPDATE \<or> operation queryDesc = CMD_DELETE)
           \<and> result_relations env ps (resultRelations ps) = Some rels
           \<and> find (\<lambda>rel. gated_table rel \<and> \<not> OidIsValid (replica_identity env rel)) rels = Some rel"
  have "find (\<lambda>rel. check_relation env False ps rel \<noteq> None) rels = Some rel"
    using a find_cong_pred [of "\<lambda>rel. check_relation env False ps rel \<noteq> None"
        "\<lambda>rel. gated_table rel \<and> \<not> OidIsValid (replica_identity env rel)" rels]
    by (simp add: check_relation_writable)
  moreover have "gated_table rel \<and> \<not> OidIsValid (replica_identity env rel)"
    using a by (auto simp: find_Some_iff)
  ultimately have "check_result_relations env False ps (resultRelations ps) =
      Inl (no_primary_key_error rel)"
    using a check_result_relations_find [of env ps "resultRelations ps" rels False]
    by (simp add: check_relation_writable)
  with assms a show "BdrExecutorStart env queryDesc =
                  Inl (Error ERRCODE_OBJECT_NOT_IN_PREREQUISITE_STATE
                    ''Cannot run UPDATE or DELETE on table %s because it does not have a PRIMARY KEY.''
                    [S (rd_relname rel)] (Some ''Add a PRIMARY KEY to the table''))"
    by (auto simp: BdrExecutorStart_def performs_writes_def no_primary_key_error_def
        RelationGetRelationName_def split: option.splits)
qed

theorem write_gate_insert_and_update_witness:
  "BdrExecutorStart writable_node (statement_on CMD_INSERT 16384) = Inr standard_ExecutorStart
   \<and> BdrExecutorStart writable_node (statement_on CMD_UPDATE 16384) =
       Inl (Error ERRCODE_OBJECT_NOT_IN_PREREQUISITE_STATE
         ''Cannot run UPDATE or DELETE on table %s because it does not have a PRIMARY KEY.''
         [S ''orders''] (Some ''Add a PRIMARY KEY to the table''))"
  using write_gate_insert_and_update [of writable_node "statement_on CMD_INSERT 16384"
      "\<lparr>commandType = CMD_INSERT, hasModifyingCTE = False, rowMarks = [],
        rtable = [\<lparr>relid = 16384\<rparr>], resultRelations = [1]\<rparr>" "[orders]" orders]
    write_gate_insert_and_update [of writable_node "statement_on CMD_UPDATE 16384"
      "\<lparr>commandType = CMD_UPDATE, hasModifyingCTE = False, rowMarks = [],
        rtable = [\<lparr>relid = 16384\<rparr>], resultRelations = [1]\<rparr>" "[orders]" orders]
  by (simp add: writable_node_def statement_on_def orders_def next_executor_start_def
      rt_fetch_def gated_table_def replica_identity_def RelationNeedsWAL_def
      RelationGetNamespace_def PG_CATALOG_NAMESPACE_def OidIsValid_def InvalidOid_def
      RelationGetIndexList_def)

subsection \<open>C5: a read-only node\<close>

text \<open>
  Claim C5, for a write-performing statement that reaches the checks of the write gate on a
  read-only node. If a result relation is durable and outside the system catalog, the
  statement is rejected: the error carries the statement's tag and the name of the first
  such relation, and its text says that only UNLOGGED or TEMPORARY tables may be
  affected. If every result relation is unlogged, temporary or a catalog table, all are
  skipped and the statement is handed to the next handler.
\<close>

theorem write_gate_read_only:
  assumes "\<not> bdr_always_allow_writes env" and "performs_writes queryDesc"
    and "bdr_is_bdr_activated_db env" and "bdr_local_node_read_only env"
    and "bdr_locks_check_dml env = None" and "plannedstmt queryDesc = Some ps"
    and "result_relations env ps (resultRelations ps) = Some rels"
  shows "(find gated_table rels = Some rel
            \<longrightarrow> BdrExecutorStart env queryDesc =
                  Inl (Error ERRCODE_READ_ONLY_SQL_TRANSACTION
                    ''%s may only affect UNLOGGED or TEMPORARY tables on read-only BDR node; %s is a regular table''
                    [S (CreateWritableStmtTag env ps), S (rd_relname rel)] None))
       \<and> ((\<forall>rel \<in> set rels. \<not> RelationNeedsWAL rel \<or> RelationGetNamespace rel = PG_CATALOG_NAMESPACE)
            \<longrightarrow> BdrExecutorStart env queryDesc = Inr (next_executor_start env))"
proof -
  have pred: "find (\<lambda>rel. check_relation env True ps rel \<noteq> None) rels = find gated_table rels"
    by (rule find_cong_pred) (simp add: check_relation_read_only)
  have loop: "check_result_relations env True ps (resultRelations ps) =
       (case find gated_table rels of
          None \<Rightarrow> Inr ()
        | Some rel \<Rightarrow> Inl (read_only_error env ps rel))"
  proof (cases "find gated_table rels")
    case None
    then show ?thesis
      using check_result_relations_find [OF assms(7), of True] pred by simp
  next
    case (Some r)
    then have "gated_table r"
      by (auto simp: find_Some_iff)
    then show ?thesis
      using Some check_result_relations_find [OF assms(7), of True] pred
      by (simp add: check_relation_read_only)
  qed
  have none: "(\<forall>rel \<in> set rels. \<not> RelationNeedsWAL rel \<or> RelationGetNamespace rel = PG_CATALOG_NAMESPACE)
     \<Longrightarrow> find gated_table rels = None"
    by (auto simp: find_None_iff gated_table_def)
  show ?thesis
    using assms loop none
    by (auto simp: BdrExecutorStart_def read_only_error_def RelationGetRelationName_def
        delegate_def next_executor_start_def split: option.splits)
qed

theorem write_gate_read_only_witness:
  "BdrExecutorStart read_only_node (statement_on CMD_UPDATE 16384) =
     Inl (Error ERRCODE_READ_ONLY_SQL_TRANSACTION
       ''%s may only affect UNLOGGED or TEMPORARY tables on read-only BDR node; %s is a regular table''
       [S ''UPDATE'', S ''orders''] None)
   \<and> BdrExecutorStart read_only_node (statement_on CMD_INSERT 16390) = Inr standard_ExecutorStart
   \<and> BdrExecutorStart read_only_node (statement_on CMD_DELETE 1259) = Inr standard_ExecutorStart"
  using write_gate_read_only [of read_only_node "statement_on CMD_UPDATE 16384"
      "\<lparr>commandType = CMD_UPDATE, hasModifyingCTE = False, rowMarks = [],
        rtable = [\<lparr>relid = 16384\<rparr>], resultRelations = [1]\<rparr>" "[orders]" orders]
    write_gate_read_only [of read_only_node "statement_on CMD_INSERT 16390"
      "\<lparr>commandType = CMD_INSERT, hasModifyingCTE = False, rowMarks = [],
        rtable = [\<lparr>relid = 16390\<rparr>], resultRelations = [1]\<rparr>" "[staging]" orders]
    write_gate_read_only [of read_only_node "statement_on CMD_DELETE 1259"
      "\<lparr>commandType = CMD_DELETE, hasModifyingCTE = False, rowMarks = [],
        rtable = [\<lparr>relid = 1259\<rparr>], resultRelations = [1]\<rparr>" "[pg_class]" orders]
  by (simp add: read_only_node_def writable_node_def statement_on_def orders_def
      staging_def pg_class_def next_executor_start_def performs_writes_def
      rt_fetch_def gated_table_def RelationNeedsWAL_def CreateWritableStmtTag_def
      command_tag_of_def RelationGetNamespace_def PG_CATALOG_NAMESPACE_def)

section \<open>Properties of the row lookup\<close>

text \<open>A result does not depend on the passes left over.\<close>

lemma find_pkey_tuple_more_passes:
  "find_pkey_tuple passes eng skey lock mode st = Some r \<Longrightarrow>
     find_pkey_tuple (passes + k) eng skey lock mode st = Some r"
proof (induction passes arbitrary: st)
  case 0
  then show ?case by simp
next
  case (Suc passes)
  then show ?case
    by (auto simp: Let_def split: option.splits prod.splits HTSU_Result.splits if_splits)
qed

text \<open>
  The source bounds the retries by nothing: on an engine that keeps reporting a
  transaction in progress on the match, no number of passes suffices.
\<close>

lemma find_pkey_tuple_may_never_return:
  "find_pkey_tuple passes stuck_engine skey lock mode st = None"
  by (induction passes arbitrary: st)
     (simp_all add: stuck_engine_def index_getnext_def TransactionIdIsValid_def
        InvalidTransactionId_def Let_def)

text \<open>
  What a returned value says about the last pass: \<open>e\<close> is the storage that pass scanned.
\<close>

lemma find_pkey_tuple_returns:
  "find_pkey_tuple passes eng skey lock mode st = Some (Inr found, st') \<Longrightarrow>
     (if found
      then \<exists>e m ms. index_rescan eng e skey = m # ms \<and> slot st' = Some (scantuple m)
             \<and> \<not> TransactionIdIsValid (snap_xmin m) \<and> \<not> TransactionIdIsValid (snap_xmax m)
             \<and> (if lock
                 then heap_lock_tuple eng (t_self (scantuple m)) mode e =
                        (HeapTupleMayBeUpdated, storage st')
                 else storage st' = e)
      else index_rescan eng (storage st') skey = [])"
proof (induction passes arbitrary: st)
  case 0
  then show ?case by simp
next
  case (Suc passes)
  show ?case
  proof (cases "index_rescan eng (storage st) skey")
    case Nil
    with Suc.prems show ?thesis
      by (auto simp: index_getnext_def)
  next
    case (Cons m ms)
    let ?xwait = "if TransactionIdIsValid (snap_xmin m) then snap_xmin m else snap_xmax m"
    let ?st1 = "st\<lparr>slot := Some (scantuple m)\<rparr>"
    show ?thesis
    proof (cases "TransactionIdIsValid ?xwait")
      case True
      with Suc.prems Cons have "find_pkey_tuple passes eng skey lock mode
          (?st1\<lparr>storage := XactLockTableWait eng ?xwait (storage ?st1)\<rparr>) = Some (Inr found, st')"
        by (simp add: index_getnext_def Let_def)
      then show ?thesis by (rule Suc.IH)
    next
      case False
      then have inv: "\<not> TransactionIdIsValid (snap_xmin m)" "\<not> TransactionIdIsValid (snap_xmax m)"
        by (auto split: if_splits)
      show ?thesis
      proof (cases lock)
        case False
        with Suc.prems Cons inv show ?thesis
          by (auto simp: index_getnext_def Let_def)
      next
        case True
        obtain res e' where l: "heap_lock_tuple eng (t_self (scantuple m)) mode (storage st) = (res, e')"
          by (cases "heap_lock_tuple eng (t_self (scantuple m)) mode (storage st)")
        show ?thesis
        proof (cases "res = HeapTupleUpdated")
          case u: True
          with Suc.prems Cons inv True l have "find_pkey_tuple passes eng skey lock mode
             (st\<lparr>slot := Some (scantuple m), storage := e',
                 server_log := server_log st @
                   [Logline LOG (Some ERRCODE_T_R_SERIALIZATION_FAILURE)
                      ''concurrent update, retrying'' []]\<rparr>) = Some (Inr found, st')"
            by (simp add: index_getnext_def Let_def)
          then show ?thesis by (rule Suc.IH)
        next
          case False
          with Suc.prems Cons inv True l
          have r: "res = HeapTupleMayBeUpdated \<and> found
                     \<and> st' = st\<lparr>slot := Some (scantuple m), storage := e'\<rparr>"
            by (cases res) (auto simp: index_getnext_def Let_def)
          have "index_rescan eng (storage st) skey = m # ms \<and> slot st' = Some (scantuple m)
             \<and> \<not> TransactionIdIsValid (snap_xmin m) \<and> \<not> TransactionIdIsValid (snap_xmax m)
             \<and> heap_lock_tuple eng (t_self (scantuple m)) mode (storage st) =
                    (HeapTupleMayBeUpdated, storage st')"
            using r Cons inv l by simp
          then show ?thesis
            using r True by auto
        qed
      qed
    qed
  qed
qed

subsection \<open>C8: at most one row for a key\<close>

text \<open>
  Claim C8. The function hands back one slot and one truth value, so never two rows.
  When it returns true, the slot holds the first match of the index scan of its last
  pass, a match with no transaction in progress on it, and with locking that row is
  locked. When it returns false, the scan of its last pass found no match; and a scan
  without a match makes it return false at once. None of this depends on the index or
  on the key.
\<close>

theorem find_pkey_tuple_at_most_one:
  "(find_pkey_tuple passes eng skey lock mode st = Some (Inr True, st') \<longrightarrow>
      (\<exists>e m ms. index_rescan eng e skey = m # ms \<and> slot st' = Some (scantuple m)
         \<and> \<not> TransactionIdIsValid (snap_xmin m) \<and> \<not> TransactionIdIsValid (snap_xmax m)
         \<and> (if lock
             then heap_lock_tuple eng (t_self (scantuple m)) mode e =
                    (HeapTupleMayBeUpdated, storage st')
             else storage st' = e)))
   \<and> (find_pkey_tuple passes eng skey lock mode st = Some (Inr False, st') \<longrightarrow>
        index_rescan eng (storage st') skey = [])
   \<and> (index_rescan eng (storage st) skey = [] \<longrightarrow>
        find_pkey_tuple (Suc passes) eng skey lock mode st = Some (Inr False, st))"
  using find_pkey_tuple_returns [of passes eng skey lock mode st True st']
    find_pkey_tuple_returns [of passes eng skey lock mode st False st']
  by (auto simp: index_getnext_def)

lemma busy_engine_run:
  "find_pkey_tuple (Suc (Suc (Suc 0))) busy_engine key42 True LockTupleExclusive (scan_at 0) =
     Some (Inr True,
       \<lparr>storage = 3, slot = Some row_v2,
        server_log = [Logline LOG (Some ERRCODE_T_R_SERIALIZATION_FAILURE)
                        ''concurrent update, retrying'' []]\<rparr>)"
  by (simp add: busy_engine_def scan_at_def index_getnext_def TransactionIdIsValid_def
      InvalidTransactionId_def Let_def row_v2_def)

theorem find_pkey_tuple_at_most_one_witness:
  "find_pkey_tuple (Suc (Suc (Suc 0))) busy_engine key42 True LockTupleExclusive (scan_at 0) =
     Some (Inr True,
       \<lparr>storage = 3, slot = Some row_v2,
        server_log = [Logline LOG (Some ERRCODE_T_R_SERIALIZATION_FAILURE)
                        ''concurrent update, retrying'' []]\<rparr>)
   \<and> index_rescan busy_engine 2 key42 =
       [\<lparr>scantuple = row_v2, snap_xmin = 0, snap_xmax = 0\<rparr>,
        \<lparr>scantuple = row_v3, snap_xmin = 0, snap_xmax = 0\<rparr>]
   \<and> find_pkey_tuple (Suc 0) busy_engine key42 True LockTupleExclusive (scan_at 9) =
       Some (Inr False, scan_at 9)
   \<and> index_rescan busy_engine 9 key42 = []"
  using find_pkey_tuple_at_most_one [of "Suc (Suc (Suc 0))" busy_engine key42 True
      LockTupleExclusive "scan_at 0"
      "\<lparr>storage = 3, slot = Some row_v2,
        server_log = [Logline LOG (Some ERRCODE_T_R_SERIALIZATION_FAILURE)
                        ''concurrent update, retrying'' []]\<rparr>"]
    find_pkey_tuple_at_most_one [of 0 busy_engine key42 True LockTupleExclusive "scan_at 9"
      "scan_at 9"]
    busy_engine_run
  by (simp add: busy_engine_def scan_at_def)

subsection \<open>C9: the outcomes of the lock attempt\<close>

text \<open>
  Claim C9, for a pass with locking requested whose scan found a match with no
  transaction in progress on it. If the lock attempt reports the row updated, a line is
  logged and the function starts over on the storage as it is now, scan included. If it
  reports success, the function returns true with the row in the slot. Every other
  outcome raises the internal error that names the outcome.
\<close>

theorem find_pkey_tuple_lock_outcomes:
  assumes "index_rescan eng (storage st) skey = m # ms"
    and "\<not> TransactionIdIsValid (snap_xmin m)" and "\<not> TransactionIdIsValid (snap_xmax m)"
    and "heap_lock_tuple eng (t_self (scantuple m)) mode (storage st) = (res, e')"
  shows "(res = HeapTupleUpdated \<longrightarrow>
            find_pkey_tuple (Suc passes) eng skey True mode st =
              find_pkey_tuple passes eng skey True mode
                (st\<lparr>slot := Some (scantuple m), storage := e',
                    server_log := server_log st @
                      [Logline LOG (Some ERRCODE_T_R_SERIALIZATION_FAILURE)
                         ''concurrent update, retrying'' []]\<rparr>))
       \<and> (res = HeapTupleMayBeUpdated \<longrightarrow>
            find_pkey_tuple (Suc passes) eng skey True mode st =
              Some (Inr True, st\<lparr>slot := Some (scantuple m), storage := e'\<rparr>))
       \<and> (res \<noteq> HeapTupleUpdated \<and> res \<noteq> HeapTupleMayBeUpdated \<longrightarrow>
            find_pkey_tuple (Suc passes) eng skey True mode st =
              Some (Inl (Error ERRCODE_INTERNAL_ERROR
                      ''unexpected HTSU_Result after locking: %u'' [Htsu res] None),
                    st\<lparr>slot := Some (scantuple m), storage := e'\<rparr>))"
  using assms by (cases res) (simp_all add: index_getnext_def Let_def)

theorem find_pkey_tuple_lock_outcomes_witness:
  "find_pkey_tuple (Suc (Suc 0)) busy_engine key42 True LockTupleExclusive (scan_at 1) =
     find_pkey_tuple (Suc 0) busy_engine key42 True LockTupleExclusive
       \<lparr>storage = 2, slot = Some row_v2,
        server_log = [Logline LOG (Some ERRCODE_T_R_SERIALIZATION_FAILURE)
                        ''concurrent update, retrying'' []]\<rparr>
   \<and> find_pkey_tuple (Suc 0) busy_engine key42 True LockTupleExclusive (scan_at 2) =
       Some (Inr True, \<lparr>storage = 3, slot = Some row_v2, server_log = []\<rparr>)
   \<and> find_pkey_tuple (Suc 0) busy_engine key42 True LockTupleExclusive (scan_at 5) =
       Some (Inl (Error ERRCODE_INTERNAL_ERROR
               ''unexpected HTSU_Result after locking: %u'' [Htsu HeapTupleWouldBlock] None),
             \<lparr>storage = 6, slot = Some row_v2, server_log = []\<rparr>)"
  using find_pkey_tuple_lock_outcomes [of busy_engine "scan_at 1" key42
      "\<lparr>scantuple = row_v2, snap_xmin = 0, snap_xmax = 0\<rparr>"
      "[\<lparr>scantuple = row_v3, snap_xmin = 0, snap_xmax = 0\<rparr>]" LockTupleExclusive
      HeapTupleUpdated 2 "Suc 0"]
    find_pkey_tuple_lock_outcomes [of busy_engine "scan_at 2" key42
      "\<lparr>scantuple = row_v2, snap_xmin = 0, snap_xmax = 0\<rparr>"
      "[\<lparr>scantuple = row_v3, snap_xmin = 0, snap_xmax = 0\<rparr>]" LockTupleExclusive
      HeapTupleMayBeUpdated 3 0]
    find_pkey_tuple_lock_outcomes [of busy_engine "scan_at 5" key42
      "\<lparr>scantuple = row_v2, snap_xmin = 0, snap_xmax = 0\<rparr>"
      "[\<lparr>scantuple = row_v3, snap_xmin = 0, snap_xmax = 0\<rparr>]" LockTupleExclusive
      HeapTupleWouldBlock 6 0]
  by (simp add: busy_engine_def scan_at_def TransactionIdIsValid_def InvalidTransactionId_def)

section \<open>Properties of the scan key builder\<close>

lemma build_index_scan_key_column_null:
  "build_index_scan_key_column sc idxrel tup attoff = Inr (entry, isnull) \<Longrightarrow>
     isnull = null_column idxrel tup attoff
     \<and> (sk_flags entry AND SK_ISNULL = 0) = (\<not> isnull)"
  by (auto simp: build_index_scan_key_column_def null_column_def Let_def ScanKeyInit_def
      SK_ISNULL_def split: if_splits)

lemma build_index_scan_key_from_null:
  "build_index_scan_key_from sc idxrel tup offs = Inr (skey, hasnulls) \<Longrightarrow>
     length skey = length offs
     \<and> hasnulls = (\<exists>attoff \<in> set offs. null_column idxrel tup attoff)
     \<and> (\<not> hasnulls \<longrightarrow> (\<forall>entry \<in> set skey. sk_flags entry AND SK_ISNULL = 0))"
proof (induction offs arbitrary: skey hasnulls)
  case Nil
  then show ?case by simp
next
  case (Cons attoff rest)
  from Cons.prems obtain entry isnull skey' hasnulls'
    where col: "build_index_scan_key_column sc idxrel tup attoff = Inr (entry, isnull)"
      and rest: "build_index_scan_key_from sc idxrel tup rest = Inr (skey', hasnulls')"
      and res: "skey = entry # skey'" "hasnulls = (isnull \<or> hasnulls')"
    by (auto split: sum.splits prod.splits)
  from build_index_scan_key_column_null [OF col] Cons.IH [OF rest] res
  show ?case by auto
qed

lemma build_index_scan_key_null:
  "build_index_scan_key sc idxrel tup = Inr (skey, hasnulls) \<Longrightarrow>
     length skey = idx_natts idxrel
     \<and> hasnulls = (\<exists>attoff < idx_natts idxrel. null_column idxrel tup attoff)
     \<and> (\<not> hasnulls \<longrightarrow> (\<forall>entry \<in> set skey. sk_flags entry AND SK_ISNULL = 0))"
  using build_index_scan_key_from_null [of sc idxrel tup "[0 ..< idx_natts idxrel]" skey hasnulls]
  by (auto simp: build_index_scan_key_def)

subsection \<open>C10: keys only for eligible indexes and rows without nulls\<close>

text \<open>
  Claim C10. When \<^verbatim>\<open>build_index_scan_keys\<close> returns, its array has one entry per index.
  An entry that is a key belongs to a unique index without expressions, the row is not
  null in any column of that index, the key is the one \<^verbatim>\<open>build_index_scan_key\<close> built
  without nulls, and no entry of the key carries the flag \<open>SK_ISNULL\<close>. An entry that
  is NULL belongs to an index that is not unique, or has expressions, or has a column in
  which the row is null.
\<close>

theorem build_index_scan_keys_eligible:
  "build_index_scan_keys sc indexes tup = Inr scan_keys \<Longrightarrow>
     list_all2
       (\<lambda>(ii, idxrel) scan_key.
          case scan_key of
            Some skey \<Rightarrow>
              ii_Unique ii \<and> ii_Expressions ii = []
              \<and> build_index_scan_key sc idxrel tup = Inr (skey, False)
              \<and> (\<forall>attoff < idx_natts idxrel. \<not> tup_isnull tup (nat (indkey idxrel ! attoff - 1)))
              \<and> (\<forall>entry \<in> set skey. sk_flags entry AND SK_ISNULL = 0)
          | None \<Rightarrow>
              \<not> ii_Unique ii \<or> ii_Expressions ii \<noteq> []
              \<or> (\<exists>attoff < idx_natts idxrel. tup_isnull tup (nat (indkey idxrel ! attoff - 1))))
       indexes scan_keys"
proof (induction indexes arbitrary: scan_keys)
  case Nil
  then show ?case by simp
next
  case (Cons ix rest)
  obtain ii idxrel where ix: "ix = (ii, idxrel)"
    by (cases ix)
  show ?case
  proof (cases "\<not> ii_Unique ii \<or> ii_Expressions ii \<noteq> []")
    case True
    with Cons.prems ix obtain ks where "build_index_scan_keys sc rest tup = Inr ks"
      and "scan_keys = None # ks"
      by (auto split: sum.splits)
    with Cons.IH [of ks] True ix show ?thesis
      by auto
  next
    case False
    with Cons.prems ix obtain skey hasnulls ks
      where key: "build_index_scan_key sc idxrel tup = Inr (skey, hasnulls)"
        and ks: "build_index_scan_keys sc rest tup = Inr ks"
        and res: "scan_keys = (if hasnulls then None else Some skey) # ks"
      by (auto split: sum.splits prod.splits if_splits)
    from build_index_scan_key_null [OF key] Cons.IH [OF ks] False ix key res
    show ?thesis
      by (auto simp: null_column_def)
  qed
qed

lemma four_indexes_keys:
  "build_index_scan_keys int4_catalog four_indexes half_null_tuple =
     Inr [Some [\<lparr>sk_flags = 0, sk_attno = 1, sk_strategy = 3, sk_subtype = 0, sk_func = 65,
                 sk_argument = 42\<rparr>], None, None, None]"
  by (simp add: four_indexes_def int4_catalog_def half_null_tuple_def build_index_scan_key_def
      build_index_scan_key_column_def upt_conv_Cons OidIsValid_def InvalidOid_def
      BTEqualStrategyNumber_def MaxTupleAttributeNumber_def ScanKeyInit_def Let_def
      SK_ISNULL_def)

theorem build_index_scan_keys_eligible_witness:
  "build_index_scan_keys int4_catalog four_indexes half_null_tuple =
     Inr [Some [\<lparr>sk_flags = 0, sk_attno = 1, sk_strategy = 3, sk_subtype = 0, sk_func = 65,
                 sk_argument = 42\<rparr>], None, None, None]
   \<and> list_all2
       (\<lambda>(ii, idxrel) scan_key.
          case scan_key of
            Some skey \<Rightarrow>
              ii_Unique ii \<and> ii_Expressions ii = []
              \<and> build_index_scan_key int4_catalog idxrel half_null_tuple = Inr (skey, False)
              \<and> (\<forall>attoff < idx_natts idxrel.
                    \<not> tup_isnull half_null_tuple (nat (indkey idxrel ! attoff - 1)))
              \<and> (\<forall>entry \<in> set skey. sk_flags entry AND SK_ISNULL = 0)
          | None \<Rightarrow>
              \<not> ii_Unique ii \<or> ii_Expressions ii \<noteq> []
              \<or> (\<exists>attoff < idx_natts idxrel.
                    tup_isnull half_null_tuple (nat (indkey idxrel ! attoff - 1))))
       four_indexes
       [Some [\<lparr>sk_flags = 0, sk_attno = 1, sk_strategy = 3, sk_subtype = 0, sk_func = 65,
                 sk_argument = 42\<rparr>], None, None, None]"
  using four_indexes_keys build_index_scan_keys_eligible [OF four_indexes_keys]
  by (rule conjI)

end
